theory Spec2Isabelle
  imports Complex_Main "HOL-Library.Sublist" "HOL-Library.AList"
begin

section \<open>Python values used by \<open>data_integration_agent/tools.py\<close>\<close>

text \<open>
  Column and table names are ASCII identifiers of the warehouse; a Python \<open>str\<close> is a
  \<open>string\<close> here and \<open>str.lower\<close> maps the letters \<open>A\<close>..\<open>Z\<close> to \<open>a\<close>..\<open>z\<close>.
\<close>

definition lower_char :: "char \<Rightarrow> char" where
  "lower_char c =
     (let n = (of_char c :: nat) in if 65 \<le> n \<and> n \<le> 90 then char_of (n + 32) else c)"

definition lower :: "string \<Rightarrow> string" where
  "lower s = map lower_char s"

text \<open>\<open>sub in s\<close> on strings: \<open>sub\<close> occurs in \<open>s\<close> as a contiguous run.\<close>

fun str_in :: "string \<Rightarrow> string \<Rightarrow> bool" where
  "str_in sub [] = (sub = [])"
| "str_in sub (c # cs) = (prefix sub (c # cs) \<or> str_in sub cs)"

text \<open>
  \<open>s.replace(old, new)\<close>: every occurrence of \<open>old\<close>, found from the left without
  overlap, wherever it stands in \<open>s\<close>.
\<close>

fun str_replace :: "string \<Rightarrow> string \<Rightarrow> string \<Rightarrow> string" where
  "str_replace old new [] = (if old = [] then new else [])"
| "str_replace old new (c # cs) =
     (if old = [] then new @ c # str_replace old new cs
      else if prefix old (c # cs) then new @ str_replace old new (drop (length old) (c # cs))
      else c # str_replace old new cs)"

text \<open>\<open>s.endswith(suf)\<close> and the slice \<open>s[:-len(suf)]\<close> (for a non-empty \<open>suf\<close>).\<close>

definition endswith :: "string \<Rightarrow> string \<Rightarrow> bool" where
  "endswith s suf = suffix suf s"

definition drop_last :: "nat \<Rightarrow> string \<Rightarrow> string" where
  "drop_last k s = take (length s - k) s"

text \<open>\<open>sep.join(xs)\<close>.\<close>

fun join :: "string \<Rightarrow> string list \<Rightarrow> string" where
  "join sep [] = []"
| "join sep [x] = x"
| "join sep (x # y # ys) = x @ sep @ join sep (y # ys)"

text \<open>Truthiness of an optional string: \<open>None\<close> and \<open>""\<close> are false.\<close>

fun truthy :: "string option \<Rightarrow> bool" where
  "truthy None = False"
| "truthy (Some s) = (s \<noteq> [])"

text \<open>
  Confidences are the two-digit decimals of the source (\<open>0.95\<close>, \<open>0.75\<close>, \<open>0.60\<close>, the
  penalty \<open>0.1\<close>), kept exactly as rationals. \<open>round(x, 2)\<close> is rounding to the nearest
  hundredth, a tie going to the even hundredth; it is used for the confidence of a
  candidate, which is a hundredth before it is rounded.
\<close>

definition round2 :: "rat \<Rightarrow> rat" where
  "round2 x =
     (let y = x * 100; f = \<lfloor>y\<rfloor>; d = y - of_int f in
      of_int (if d < 1/2 then f else if 1/2 < d then f + 1 else if even f then f else f + 1)
        / 100)"

text \<open>
  The average is the one value the code rounds that need not be a hundredth already. Its
  sum and quotient are computed on binary floats, and \<open>round(x, 2)\<close> rounds the float
  that came out: where the exact quotient of the decimals is not halfway between two
  hundredths this is the nearest hundredth; where it is halfway, the float lies a little
  above or a little below (how the floats are summed decides, and that is the
  interpreter's business), and the result is the upper or the lower neighbour. \<open>up\<close>
  says which.
\<close>

definition round2_float :: "bool \<Rightarrow> rat \<Rightarrow> rat" where
  "round2_float up x =
     (let y = x * 100; f = \<lfloor>y\<rfloor>; d = y - of_int f in
      of_int (if d < 1/2 then f else if 1/2 < d then f + 1 else if up then f + 1 else f) / 100)"

text \<open>Decimal digits of a natural number, and the format \<open>{x:.0f}\<close> of a number.\<close>

fun digits :: "nat \<Rightarrow> string" where
  "digits n =
     (if n < 10 then [char_of (48 + n)] else digits (n div 10) @ [char_of (48 + n mod 10)])"

definition fmt_0f :: "rat \<Rightarrow> string" where
  "fmt_0f x =
     (let f = \<lfloor>x\<rfloor>; d = x - of_int f;
          r = (if d < 1/2 then f else if 1/2 < d then f + 1 else if even f then f else f + 1)
      in if r < 0 then CHR ''-'' # digits (nat (- r)) else digits (nat r))"

definition nl :: string where
  "nl = [CHR 0x0A]"

definition quote :: string where
  "quote = [CHR 0x27]"

definition backtick :: string where
  "backtick = [CHR 0x60]"

text \<open>The values of the small dictionaries the tools return and log.\<close>

datatype pyval = PStr string | PInt int | PNum rat | PStrs "string list" | PNone

type_synonym pydict = "(string \<times> pyval) list"

definition str_opt :: "string option \<Rightarrow> string" where
  "str_opt x = (case x of None \<Rightarrow> ''None'' | Some s \<Rightarrow> s)"

datatype py_exn = IndexError | ClientError string

datatype 'a ret = Raised py_exn | Returned 'a

section \<open>Data model\<close>

record column =
  name :: string
  type :: string
  nullable :: bool
  position :: int

record table =
  table_name :: string
  columns :: "column list"

record schema_info =
  dataset_id :: string
  project_id :: "string option"
  tables :: "table list"
  table_count :: nat

record mapping =
  target_column :: string
  target_type :: string
  source_column :: "string option"
  source_type :: "string option"
  confidence :: rat
  transformation :: "string option"
  status :: string

record confidence_analysis =
  ca_recommendation :: string

record risk_assessment =
  ra_risk_level :: string
  ra_risk_factors :: "string list"
  ra_mitigations :: "string list"
  ra_recommendation :: string

record mapping_set =
  source_table :: string
  target_table :: string
  mappings :: "mapping list"
  mapping_count :: nat
  unmapped_count :: nat
  average_confidence :: rat
  validation_error :: "string option"
  hallucinated_columns :: "string list option"
  explanations :: "string list"
  confidence_analysis :: confidence_analysis
  recommendation :: string
  risk_assessment :: risk_assessment

record generated_sql =
  gs_source_table :: string
  gs_target_table :: string
  insert_sql :: string
  merge_sql :: string
  column_count :: nat
  mapped_count :: nat
  sql_validation_status :: string
  sql_validation_warnings :: "string list"
  gs_risk_assessment :: risk_assessment
  generated_at :: string

record audit_event =
  category :: string
  event_type :: string
  payload :: pydict
  risk_level :: string

text \<open>
  The session: the keys of \<open>tool_context.state\<close> the tools read and write (a key that
  was never written reads as the empty dictionary, as \<open>state.get(key, {})\<close> does), and
  the audit trail, which is the sequence of \<open>log_audit_event\<close> calls made so far.
\<close>

record world =
  source_schema :: "schema_info option"
  target_schema :: "schema_info option"
  suggested_mappings :: "string \<rightharpoonup> mapping_set"
  approved_mappings :: "string \<rightharpoonup> mapping_set"
  generated_sql :: "string \<rightharpoonup> generated_sql"
  audit_log :: "audit_event list"

definition initial_world :: world where
  "initial_world =
     \<lparr>source_schema = None, target_schema = None, suggested_mappings = Map.empty,
      approved_mappings = Map.empty, generated_sql = Map.empty, audit_log = []\<rparr>"

text \<open>
  Modelled from the spec: \<open>guardrails.log_audit_event\<close> is imported by \<open>tools.py\<close> and is
  not among the sources; the audit log is append-only, so a call adds its event at the
  end of the trail and changes nothing else.
\<close>

definition log_audit_event :: "string \<Rightarrow> string \<Rightarrow> pydict \<Rightarrow> string \<Rightarrow> world \<Rightarrow> world" where
  "log_audit_event cat ev pl risk st =
     st\<lparr>audit_log := audit_log st @
       [\<lparr>category = cat, event_type = ev, payload = pl, risk_level = risk\<rparr>]\<rparr>"

text \<open>
  The other functions \<open>tools.py\<close> imports from \<open>guardrails\<close> are not among the sources
  either. They are checks over data already computed, so they are parameters of the
  model: pure functions of their arguments. The record holds one more thing the sources
  do not fix: \<open>float_tie_up cs\<close> says whether the float average of the confidences
  \<open>cs\<close>, when their exact average is halfway between two hundredths, is rounded to the
  upper one.
\<close>

record guardrails =
  validate_mapping_output ::
    "mapping list \<Rightarrow> string set \<Rightarrow> string set \<Rightarrow> bool \<times> string \<times> string list"
  generate_mapping_explanation :: "mapping \<Rightarrow> string"
  validate_confidence_threshold :: "mapping list \<Rightarrow> confidence_analysis"
  generate_risk_assessment :: "string \<Rightarrow> pydict \<Rightarrow> risk_assessment"
  validate_sql_query :: "string \<Rightarrow> bool \<times> string \<times> string list"
  float_tie_up :: "rat list \<Rightarrow> bool"

text \<open>The process environment and the clock (\<open>datetime.utcnow().isoformat()\<close>).\<close>

record env =
  BQ_PROJECT_ID :: "string option"
  GOOGLE_CLOUD_PROJECT :: "string option"
  BQ_DATASET_SOURCE :: "string option"
  BQ_DATASET_TARGET :: "string option"
  utcnow :: string

definition env_project_id :: "env \<Rightarrow> string option" where
  "env_project_id E =
     (case BQ_PROJECT_ID E of Some p \<Rightarrow> Some p | None \<Rightarrow> GOOGLE_CLOUD_PROJECT E)"

definition env_source_dataset :: "env \<Rightarrow> string" where
  "env_source_dataset E =
     (case BQ_DATASET_SOURCE E of Some d \<Rightarrow> d | None \<Rightarrow> ''commercial_lending_source'')"

definition env_target_dataset :: "env \<Rightarrow> string" where
  "env_target_dataset E =
     (case BQ_DATASET_TARGET E of Some d \<Rightarrow> d | None \<Rightarrow> ''commercial_lending_target'')"

text \<open>What the warehouse client answers: it cannot be built, the query fails, or rows.\<close>

datatype 'a bq = ClientFailure string | QueryFailure string | QueryResult 'a

section \<open>Schema snapshots: \<open>get_source_schema\<close>, \<open>get_target_schema\<close>\<close>

record row =
  row_table_name :: string
  row_column_name :: string
  row_data_type :: string
  row_is_nullable :: string
  row_ordinal_position :: int

definition column_of_row :: "row \<Rightarrow> column" where
  "column_of_row r =
     \<lparr>name = row_column_name r, type = row_data_type r,
      nullable = (row_is_nullable r = ''YES''), position = row_ordinal_position r\<rparr>"

text \<open>The loop over the result rows; \<open>tbls\<close> is the dictionary \<open>tables\<close>, in insertion order.\<close>

fun group_rows :: "row list \<Rightarrow> (string \<times> table) list \<Rightarrow> (string \<times> table) list" where
  "group_rows [] tbls = tbls"
| "group_rows (r # rs) tbls =
     group_rows rs
       (AList.update (row_table_name r)
          (case map_of tbls (row_table_name r) of
             None \<Rightarrow> \<lparr>table_name = row_table_name r, columns = [column_of_row r]\<rparr>
           | Some t \<Rightarrow> t\<lparr>columns := columns t @ [column_of_row r]\<rparr>)
          tbls)"

definition build_schema_info :: "env \<Rightarrow> string \<Rightarrow> row list \<Rightarrow> schema_info" where
  "build_schema_info E ds rows =
     (let tbls = group_rows rows [] in
      \<lparr>dataset_id = ds, project_id = env_project_id E, tables = map snd tbls,
       table_count = length tbls\<rparr>)"

definition get_source_schema ::
  "env \<Rightarrow> row list bq \<Rightarrow> string \<Rightarrow> world \<Rightarrow> (pydict + schema_info) ret \<times> world" where
  "get_source_schema E answer ds st =
     (case answer of
        ClientFailure e \<Rightarrow> (Raised (ClientError e), st)
      | QueryFailure e \<Rightarrow> (Returned (Inl [(''error'', PStr e), (''dataset_id'', PStr ds)]), st)
      | QueryResult rows \<Rightarrow>
          (let info = build_schema_info E ds rows in
           (Returned (Inr info), st\<lparr>source_schema := Some info\<rparr>)))"

definition get_target_schema ::
  "env \<Rightarrow> row list bq \<Rightarrow> string \<Rightarrow> world \<Rightarrow> (pydict + schema_info) ret \<times> world" where
  "get_target_schema E answer ds st =
     (case answer of
        ClientFailure e \<Rightarrow> (Raised (ClientError e), st)
      | QueryFailure e \<Rightarrow> (Returned (Inl [(''error'', PStr e), (''dataset_id'', PStr ds)]), st)
      | QueryResult rows \<Rightarrow>
          (let info = build_schema_info E ds rows in
           (Returned (Inr info), st\<lparr>target_schema := Some info\<rparr>)))"

section \<open>Mapping inference: \<open>suggest_column_mappings\<close>\<close>

definition prefixes :: "string list" where
  "prefixes = [''src_'', ''tgt_'', ''dim_'', ''fact_'', ''stg_'']"

definition suffixes :: "string list" where
  "suffixes = [''_id'', ''_key'', ''_code'', ''_date'', ''_amt'', ''_amount'']"

text \<open>The two loops of \<open>_similar_names\<close>, over \<open>prefixes\<close> and over \<open>suffixes\<close>.\<close>

fun remove_prefixes :: "string list \<Rightarrow> string \<times> string \<Rightarrow> string \<times> string" where
  "remove_prefixes [] (n1, n2) = (n1, n2)"
| "remove_prefixes (p # ps) (n1, n2) =
     remove_prefixes ps (str_replace p [] n1, str_replace p [] n2)"

fun remove_suffixes :: "string list \<Rightarrow> string \<times> string \<Rightarrow> string \<times> string" where
  "remove_suffixes [] (n1, n2) = (n1, n2)"
| "remove_suffixes (s # ss) (n1, n2) =
     (if endswith n1 s \<and> endswith n2 s
      then remove_suffixes ss (drop_last (length s) n1, drop_last (length s) n2)
      else remove_suffixes ss (n1, n2))"

definition similar_names :: "string \<Rightarrow> string \<Rightarrow> bool" where
  "similar_names name1 name2 =
     (case remove_suffixes suffixes (remove_prefixes prefixes (lower name1, lower name2)) of
        (n1, n2) \<Rightarrow> n1 = n2 \<or> str_in n1 n2 \<or> str_in n2 n1)"

text \<open>
  The similarity rule in the words of the specification: a listed prefix is stripped
  where a name starts with it; the suffix step is the one above.
\<close>

definition strip_prefix :: "string \<Rightarrow> string \<Rightarrow> string" where
  "strip_prefix p s = (if prefix p s then drop (length p) s else s)"

fun strip_prefixes :: "string list \<Rightarrow> string \<times> string \<Rightarrow> string \<times> string" where
  "strip_prefixes [] (n1, n2) = (n1, n2)"
| "strip_prefixes (p # ps) (n1, n2) = strip_prefixes ps (strip_prefix p n1, strip_prefix p n2)"

definition spec_similar_names :: "string \<Rightarrow> string \<Rightarrow> bool" where
  "spec_similar_names name1 name2 =
     (case remove_suffixes suffixes (strip_prefixes prefixes (lower name1, lower name2)) of
        (n1, n2) \<Rightarrow> n1 = n2 \<or> str_in n1 n2 \<or> str_in n2 n1)"

text \<open>
  The body of the inner loop. \<open>rule_confidence\<close> is the \<open>if/elif/else\<close> chain, \<open>None\<close>
  standing for \<open>continue\<close>; \<open>candidate\<close> adds the adjustment for the declared types and
  gives the confidence and the transformation template of one source column.
\<close>

definition rule_confidence :: "string \<Rightarrow> string \<Rightarrow> rat option" where
  "rule_confidence source_name target_name =
     (if lower source_name = lower target_name then Some 0.95
      else if str_in (lower source_name) (lower target_name)
              \<or> str_in (lower target_name) (lower source_name) then Some 0.75
      else if similar_names source_name target_name then Some 0.60
      else None)"

definition cast_template :: "string \<Rightarrow> string" where
  "cast_template ty = ''CAST({source} AS '' @ ty @ '')''"

definition candidate :: "string \<times> column \<Rightarrow> string \<times> column \<Rightarrow> (rat \<times> string option) option" where
  "candidate s t =
     (case rule_confidence (fst s) (fst t) of
        None \<Rightarrow> None
      | Some c \<Rightarrow>
          if type (snd s) \<noteq> type (snd t)
          then Some (c - 0.1, Some (cast_template (type (snd t))))
          else Some (c, None))"

text \<open>
  The inner loop over \<open>source_cols.items()\<close>, carrying \<open>best_match\<close>,
  \<open>best_confidence\<close> and \<open>transformation\<close>.
\<close>

fun best_loop ::
  "(string \<times> column) list \<Rightarrow> string \<times> column \<Rightarrow> string option \<times> rat \<times> string option
     \<Rightarrow> string option \<times> rat \<times> string option" where
  "best_loop [] t best = best"
| "best_loop (s # ss) t (best_match, best_confidence, transf) =
     (case candidate s t of
        None \<Rightarrow> best_loop ss t (best_match, best_confidence, transf)
      | Some (c, tr) \<Rightarrow>
          if c > best_confidence then best_loop ss t (Some (fst s), c, tr)
          else best_loop ss t (best_match, best_confidence, transf))"

definition make_mapping :: "(string \<times> column) list \<Rightarrow> string \<times> column \<Rightarrow> mapping" where
  "make_mapping source_cols t =
     (case best_loop source_cols t (None, 0, None) of
        (best_match, best_confidence, transf) \<Rightarrow>
          \<lparr>target_column = fst t,
           target_type = type (snd t),
           source_column = best_match,
           source_type =
             (case best_match of
                None \<Rightarrow> None
              | Some b \<Rightarrow> if b \<noteq> [] then map_option type (map_of source_cols b) else None),
           confidence = round2 best_confidence,
           transformation = transf,
           status = (if truthy best_match then ''suggested'' else ''unmapped'')\<rparr>)"

text \<open>The outer loop over \<open>target_cols.items()\<close>, appending to \<open>mappings\<close>.\<close>

fun mapping_loop ::
  "(string \<times> column) list \<Rightarrow> (string \<times> column) list \<Rightarrow> mapping list \<Rightarrow> mapping list" where
  "mapping_loop source_cols [] acc = acc"
| "mapping_loop source_cols (t # ts) acc =
     mapping_loop source_cols ts (acc @ [make_mapping source_cols t])"

definition mapped :: "mapping \<Rightarrow> bool" where
  "mapped m = truthy (source_column m)"

text \<open>The confidences \<open>m["confidence"] for m in mappings if m["source_column"]\<close>.\<close>

definition mapped_confidences :: "mapping list \<Rightarrow> rat list" where
  "mapped_confidences ms = map confidence (filter mapped ms)"

definition average_of :: "(rat list \<Rightarrow> bool) \<Rightarrow> mapping list \<Rightarrow> rat" where
  "average_of tie_up ms =
     round2_float (tie_up (mapped_confidences ms))
       (sum_list (mapped_confidences ms) / of_nat (max (length (filter mapped ms)) 1))"

text \<open>
  The dictionary \<open>{col["name"]: col for col in table["columns"]}\<close>, in insertion order,
  of the first table with the given name; \<open>None\<close> when no table has it.
\<close>

definition dict_of_columns :: "column list \<Rightarrow> (string \<times> column) list" where
  "dict_of_columns cols = fold (\<lambda>c d. AList.update (name c) c d) cols []"

fun find_table_cols :: "table list \<Rightarrow> string \<Rightarrow> (string \<times> column) list option" where
  "find_table_cols [] n = None"
| "find_table_cols (t # ts) n =
     (if table_name t = n then Some (dict_of_columns (columns t)) else find_table_cols ts n)"

definition mapping_key :: "string \<Rightarrow> string \<Rightarrow> string" where
  "mapping_key src tgt = src @ ''_to_'' @ tgt"

text \<open>The result dictionary, with the entries the guardrail functions add to it.\<close>

definition suggest_result ::
  "guardrails \<Rightarrow> string \<Rightarrow> string \<Rightarrow> (string \<times> column) list \<Rightarrow> (string \<times> column) list
     \<Rightarrow> mapping_set" where
  "suggest_result G src tgt source_cols target_cols =
     (let ms = mapping_loop source_cols target_cols [];
          avg = average_of (float_tie_up G) ms;
          unmapped = length (filter (\<lambda>m. \<not> mapped m) ms);
          checked = validate_mapping_output G ms (set (map fst source_cols))
                      (set (map fst target_cols));
          analysis = validate_confidence_threshold G ms
      in \<lparr>source_table = src,
          target_table = tgt,
          mappings = ms,
          mapping_count = length (filter mapped ms),
          unmapped_count = unmapped,
          average_confidence = avg,
          validation_error = (if fst checked then None else Some (fst (snd checked))),
          hallucinated_columns = (if fst checked then None else Some (snd (snd checked))),
          explanations = map (generate_mapping_explanation G) ms,
          confidence_analysis = analysis,
          recommendation = ca_recommendation analysis,
          risk_assessment =
            generate_risk_assessment G ''MAPPING_SUGGEST''
              [(''average_confidence'', PNum avg), (''unmapped_count'', PInt (int unmapped))]\<rparr>)"

definition suggest_audit :: "string \<Rightarrow> string \<Rightarrow> mapping_set \<Rightarrow> world \<Rightarrow> world" where
  "suggest_audit src tgt r st =
     log_audit_event ''MAPPING'' ''MAPPINGS_SUGGESTED''
       [(''source_table'', PStr src), (''target_table'', PStr tgt),
        (''mapping_count'', PInt (int (mapping_count r))),
        (''avg_confidence'', PNum (average_confidence r)),
        (''recommendation'', PStr (recommendation r))]
       (ra_risk_level (risk_assessment r))
       (case hallucinated_columns r of
          None \<Rightarrow> st
        | Some h \<Rightarrow>
            log_audit_event ''MAPPING'' ''HALLUCINATION_PREVENTED''
              [(''source_table'', PStr src), (''target_table'', PStr tgt),
               (''hallucinated'', PStrs h)]
              ''HIGH'' st)"

definition schema_not_loaded :: "string \<Rightarrow> string \<Rightarrow> pydict" where
  "schema_not_loaded src tgt =
     [(''error'', PStr (''Schema information not available. ''
                       @ ''Run get_source_schema and get_target_schema first.'')),
      (''source_table'', PStr src), (''target_table'', PStr tgt)]"

definition source_not_found :: "string \<Rightarrow> pydict" where
  "source_not_found src =
     [(''error'', PStr (''Source table '' @ quote @ src @ quote @ '' not found in schema.''))]"

definition target_not_found :: "string \<Rightarrow> pydict" where
  "target_not_found tgt =
     [(''error'', PStr (''Target table '' @ quote @ tgt @ quote @ '' not found in schema.''))]"

definition suggest_column_mappings ::
  "guardrails \<Rightarrow> string \<Rightarrow> string \<Rightarrow> world \<Rightarrow> (pydict + mapping_set) \<times> world" where
  "suggest_column_mappings G src tgt st =
     (case (source_schema st, target_schema st) of
        (Some ss, Some ts) \<Rightarrow>
          (case find_table_cols (tables ss) src of
             None \<Rightarrow> (Inl (source_not_found src), st)
           | Some source_cols \<Rightarrow>
               if source_cols = [] then (Inl (source_not_found src), st)
               else
                 (case find_table_cols (tables ts) tgt of
                    None \<Rightarrow> (Inl (target_not_found tgt), st)
                  | Some target_cols \<Rightarrow>
                      if target_cols = [] then (Inl (target_not_found tgt), st)
                      else
                        (let r = suggest_result G src tgt source_cols target_cols;
                             st' = suggest_audit src tgt r st
                         in (Inr r,
                             st'\<lparr>suggested_mappings :=
                                   (suggested_mappings st')(mapping_key src tgt \<mapsto> r)\<rparr>))))
      | _ \<Rightarrow> (Inl (schema_not_loaded src tgt), st))"

section \<open>Approval: \<open>approve_mappings\<close>\<close>

definition no_suggestion :: "string \<Rightarrow> string \<Rightarrow> pydict" where
  "no_suggestion src tgt =
     [(''error'', PStr (''No suggested mappings found for '' @ src @ '' -> '' @ tgt
                        @ ''. Run suggest_column_mappings first.'')),
      (''source_table'', PStr src), (''target_table'', PStr tgt)]"

text \<open>
  The review payload (the table of mappings, the summary, the risk assessment) is built
  from the suggestion and handed to \<open>tool_context.request_confirmation\<close>; what comes
  back is the decision taken on it, the argument \<open>approved\<close>.
\<close>

definition approve_mappings ::
  "env \<Rightarrow> string \<Rightarrow> string \<Rightarrow> bool \<Rightarrow> world \<Rightarrow> pydict \<times> world" where
  "approve_mappings E src tgt approved st =
     (case suggested_mappings st (mapping_key src tgt) of
        None \<Rightarrow> (no_suggestion src tgt, st)
      | Some mapping_data \<Rightarrow>
          if approved then
            ([(''status'', PStr ''approved''),
              (''source_table'', PStr src), (''target_table'', PStr tgt),
              (''mapping_count'', PInt (int (mapping_count mapping_data))),
              (''message'', PStr ''Mappings approved. Ready to generate transformation SQL.''),
              (''audit_trail'', PStr (''Approved at '' @ utcnow E))],
             log_audit_event ''MAPPING'' ''MAPPINGS_APPROVED''
               [(''source_table'', PStr src), (''target_table'', PStr tgt),
                (''mapping_count'', PInt (int (mapping_count mapping_data))),
                (''avg_confidence'', PNum (average_confidence mapping_data))]
               ''LOW''
               (st\<lparr>approved_mappings :=
                     (approved_mappings st)(mapping_key src tgt \<mapsto> mapping_data)\<rparr>))
          else
            ([(''status'', PStr ''rejected''),
              (''source_table'', PStr src), (''target_table'', PStr tgt),
              (''message'', PStr ''Mappings rejected. Please provide feedback for adjustments.''),
              (''audit_trail'', PStr (''Rejected at '' @ utcnow E))],
             log_audit_event ''MAPPING'' ''MAPPINGS_REJECTED''
               [(''source_table'', PStr src), (''target_table'', PStr tgt)]
               ''LOW'' st))"

section \<open>SQL synthesis: \<open>generate_transformation_sql\<close>\<close>

definition not_approved :: "string \<Rightarrow> string \<Rightarrow> pydict" where
  "not_approved src tgt =
     [(''error'', PStr (''No approved mappings found for '' @ src @ '' -> '' @ tgt
                        @ ''. Run approve_mappings first.'')),
      (''source_table'', PStr src), (''target_table'', PStr tgt)]"

text \<open>One entry of \<open>select_columns\<close>, and the loop that appends them.\<close>

definition select_column :: "mapping \<Rightarrow> string" where
  "select_column m =
     (case source_column m of
        None \<Rightarrow> ''  NULL AS '' @ target_column m
      | Some sc \<Rightarrow>
          if sc = [] then ''  NULL AS '' @ target_column m
          else
            (case transformation m of
               None \<Rightarrow> ''  '' @ sc @ '' AS '' @ target_column m
             | Some tr \<Rightarrow>
                 if tr = [] then ''  '' @ sc @ '' AS '' @ target_column m
                 else ''  '' @ str_replace ''{source}'' sc tr @ '' AS '' @ target_column m))"

fun select_loop :: "mapping list \<Rightarrow> string list \<Rightarrow> string list" where
  "select_loop [] acc = acc"
| "select_loop (m # ms) acc = select_loop ms (acc @ [select_column m])"

definition table_ref :: "string option \<Rightarrow> string \<Rightarrow> string \<Rightarrow> string" where
  "table_ref pid ds tb = backtick @ str_opt pid @ ''.'' @ ds @ ''.'' @ tb @ backtick"

definition insert_sql_text :: "env \<Rightarrow> string \<Rightarrow> string \<Rightarrow> rat \<Rightarrow> string \<Rightarrow> string" where
  "insert_sql_text E src tgt avg select_clause =
     ''-- Generated transformation: '' @ src @ '' -> '' @ tgt @ nl
     @ ''-- Generated at: {timestamp}'' @ nl
     @ ''-- Mapping confidence: '' @ fmt_0f (avg * 100) @ ''%'' @ nl
     @ nl
     @ ''INSERT INTO '' @ table_ref (env_project_id E) (env_target_dataset E) tgt @ nl
     @ ''SELECT'' @ nl
     @ select_clause @ nl
     @ ''FROM '' @ table_ref (env_project_id E) (env_source_dataset E) src @ '';'' @ nl"

text \<open>
  The MERGE text reads \<open>mapping_data['mappings'][0]\<close>, which raises \<open>IndexError\<close> on an
  empty list.
\<close>

definition merge_sql_text ::
  "env \<Rightarrow> string \<Rightarrow> string \<Rightarrow> mapping list \<Rightarrow> string \<Rightarrow> string ret" where
  "merge_sql_text E src tgt ms select_clause =
     (case ms of
        [] \<Rightarrow> Raised IndexError
      | m0 # _ \<Rightarrow>
          Returned
            (''-- MERGE transformation: '' @ src @ '' -> '' @ tgt @ nl
             @ ''-- Use this for incremental updates'' @ nl
             @ nl
             @ ''MERGE '' @ table_ref (env_project_id E) (env_target_dataset E) tgt
             @ '' AS target'' @ nl
             @ ''USING ('' @ nl
             @ ''  SELECT'' @ nl
             @ select_clause @ nl
             @ ''  FROM '' @ table_ref (env_project_id E) (env_source_dataset E) src @ nl
             @ '') AS source'' @ nl
             @ ''ON target.'' @ target_column m0 @ '' = source.'' @ target_column m0 @ nl
             @ ''WHEN MATCHED THEN'' @ nl
             @ ''  UPDATE SET ''
             @ join '', ''
                 (map (\<lambda>m. ''target.'' @ target_column m @ '' = source.'' @ target_column m)
                    (filter mapped ms)) @ nl
             @ ''WHEN NOT MATCHED THEN'' @ nl
             @ ''  INSERT ('' @ join '', '' (map target_column ms) @ '')'' @ nl
             @ ''  VALUES ('' @ join '', '' (map (\<lambda>m. ''source.'' @ target_column m) ms)
             @ '');'' @ nl))"

definition generate_transformation_sql ::
  "guardrails \<Rightarrow> env \<Rightarrow> string \<Rightarrow> string \<Rightarrow> world \<Rightarrow> (pydict + generated_sql) ret \<times> world" where
  "generate_transformation_sql G E src tgt st =
     (case approved_mappings st (mapping_key src tgt) of
        None \<Rightarrow> (Returned (Inl (not_approved src tgt)), st)
      | Some mapping_data \<Rightarrow>
          (let select_clause = join ('','' @ nl) (select_loop (mappings mapping_data) []);
               sql = insert_sql_text E src tgt (average_confidence mapping_data) select_clause
           in case merge_sql_text E src tgt (mappings mapping_data) select_clause of
                Raised e \<Rightarrow> (Raised e, st)
              | Returned merge \<Rightarrow>
                  (case validate_sql_query G sql of
                     (sql_valid, sql_error, sql_warnings) \<Rightarrow>
                       if \<not> sql_valid then
                         (Returned (Inl
                            [(''status'', PStr ''error''),
                             (''source_table'', PStr src), (''target_table'', PStr tgt),
                             (''error'', PStr sql_error),
                             (''message'', PStr (''Generated SQL failed validation. ''
                                                 @ ''Please review mappings.''))]),
                          log_audit_event ''SQL_GENERATION'' ''INVALID_SQL_BLOCKED''
                            [(''error'', PStr sql_error), (''sql_preview'', PStr (take 200 sql))]
                            ''HIGH'' st)
                       else
                         (let result =
                                \<lparr>gs_source_table = src,
                                 gs_target_table = tgt,
                                 insert_sql = sql,
                                 merge_sql = merge,
                                 column_count = length (mappings mapping_data),
                                 mapped_count = mapping_count mapping_data,
                                 sql_validation_status = ''passed'',
                                 sql_validation_warnings = sql_warnings,
                                 gs_risk_assessment =
                                   generate_risk_assessment G ''SQL_EXECUTE''
                                     [(''source_table'', PStr src), (''target_table'', PStr tgt)],
                                 generated_at = utcnow E\<rparr>;
                              st' = log_audit_event ''SQL_GENERATION'' ''SQL_GENERATED''
                                      [(''source_table'', PStr src), (''target_table'', PStr tgt),
                                       (''column_count'', PInt (int (column_count result))),
                                       (''warnings_count'', PInt (int (length sql_warnings)))]
                                      ''MEDIUM'' st
                          in (Returned (Inr result),
                              st'\<lparr>generated_sql :=
                                    (generated_sql st')(mapping_key src tgt \<mapsto> result)\<rparr>)))))"

section \<open>Execution: \<open>execute_transformation\<close>\<close>

record query_job =
  total_bytes_processed :: int
  num_dml_affected_rows :: int
  job_id :: string

definition no_sql_generated :: "string \<Rightarrow> string \<Rightarrow> pydict" where
  "no_sql_generated src tgt =
     [(''error'', PStr (''No generated SQL found for '' @ src @ '' -> '' @ tgt
                        @ ''. Run generate_transformation_sql first.'')),
      (''source_table'', PStr src), (''target_table'', PStr tgt)]"

text \<open>
  \<open>warehouse sql dry_run\<close> is what the client answers to the query: the client is
  built outside the \<open>try\<close>, the query and the wait for the job run inside it.
\<close>

definition execute_transformation ::
  "env \<Rightarrow> (string \<Rightarrow> bool \<Rightarrow> query_job bq) \<Rightarrow> string \<Rightarrow> string \<Rightarrow> bool \<Rightarrow> world
     \<Rightarrow> pydict ret \<times> world" where
  "execute_transformation E warehouse src tgt dry_run st =
     (case generated_sql st (mapping_key src tgt) of
        None \<Rightarrow> (Returned (no_sql_generated src tgt), st)
      | Some sql_data \<Rightarrow>
          (case warehouse (str_replace ''{timestamp}'' ''NOW()'' (insert_sql sql_data)) dry_run of
             ClientFailure e \<Rightarrow> (Raised (ClientError e), st)
           | QueryFailure e \<Rightarrow>
               (Returned
                  [(''status'', PStr ''error''),
                   (''source_table'', PStr src), (''target_table'', PStr tgt),
                   (''error'', PStr e), (''error_time'', PStr (utcnow E))],
                log_audit_event ''SQL_EXECUTION'' ''SQL_ERROR''
                  [(''source_table'', PStr src), (''target_table'', PStr tgt),
                   (''error'', PStr e)]
                  ''HIGH'' st)
           | QueryResult job \<Rightarrow>
               if dry_run then
                 (Returned
                    [(''status'', PStr ''validated''),
                     (''source_table'', PStr src), (''target_table'', PStr tgt),
                     (''bytes_processed'', PInt (total_bytes_processed job)),
                     (''message'', PStr (''SQL validated successfully. ''
                                         @ ''Set dry_run=False to execute.'')),
                     (''risk_note'', PStr ''Dry run completed - no data was modified'')],
                  log_audit_event ''SQL_EXECUTION'' ''SQL_VALIDATED''
                    [(''source_table'', PStr src), (''target_table'', PStr tgt),
                     (''bytes_processed'', PInt (total_bytes_processed job))]
                    ''LOW'' st)
               else
                 (Returned
                    [(''status'', PStr ''executed''),
                     (''source_table'', PStr src), (''target_table'', PStr tgt),
                     (''rows_affected'', PInt (num_dml_affected_rows job)),
                     (''job_id'', PStr (job_id job)),
                     (''message'', PStr ''Transformation executed successfully.''),
                     (''executed_at'', PStr (utcnow E))],
                  log_audit_event ''SQL_EXECUTION'' ''SQL_EXECUTED''
                    [(''source_table'', PStr src), (''target_table'', PStr tgt),
                     (''rows_affected'', PInt (num_dml_affected_rows job)),
                     (''job_id'', PStr (job_id job))]
                    ''HIGH'' st)))"

section \<open>Sessions\<close>

text \<open>
  The worlds a session can be in: it starts with an empty state bag and an empty trail,
  and every step is a call of one of the tools that write to them (\<open>get_sample_data\<close>
  reads the warehouse and writes neither).
\<close>

inductive reachable :: "guardrails \<Rightarrow> world \<Rightarrow> bool" for G :: guardrails where
  start: "reachable G initial_world"
| source: "reachable G st \<Longrightarrow> reachable G (snd (get_source_schema E answer ds st))"
| target: "reachable G st \<Longrightarrow> reachable G (snd (get_target_schema E answer ds st))"
| suggest: "reachable G st \<Longrightarrow> reachable G (snd (suggest_column_mappings G src tgt st))"
| approve: "reachable G st \<Longrightarrow> reachable G (snd (approve_mappings E src tgt decision st))"
| generate: "reachable G st \<Longrightarrow> reachable G (snd (generate_transformation_sql G E src tgt st))"
| execute:
    "reachable G st \<Longrightarrow> reachable G (snd (execute_transformation E warehouse src tgt dry st))"

section \<open>The end-to-end scenario of the specification\<close>

text \<open>
  Source table \<open>cust_src(cust_id INT64, cust_name STRING)\<close>, target table
  \<open>customer(customer_id INT64, customer_name STRING, customer_status STRING)\<close>, as the
  rows the metadata query returns; guardrails that find nothing to object to.
\<close>

definition scenario_source_rows :: "row list" where
  "scenario_source_rows =
     [\<lparr>row_table_name = ''cust_src'', row_column_name = ''cust_id'',
       row_data_type = ''INT64'', row_is_nullable = ''YES'', row_ordinal_position = 1\<rparr>,
      \<lparr>row_table_name = ''cust_src'', row_column_name = ''cust_name'',
       row_data_type = ''STRING'', row_is_nullable = ''YES'', row_ordinal_position = 2\<rparr>]"

definition scenario_target_rows :: "row list" where
  "scenario_target_rows =
     [\<lparr>row_table_name = ''customer'', row_column_name = ''customer_id'',
       row_data_type = ''INT64'', row_is_nullable = ''YES'', row_ordinal_position = 1\<rparr>,
      \<lparr>row_table_name = ''customer'', row_column_name = ''customer_name'',
       row_data_type = ''STRING'', row_is_nullable = ''YES'', row_ordinal_position = 2\<rparr>,
      \<lparr>row_table_name = ''customer'', row_column_name = ''customer_status'',
       row_data_type = ''STRING'', row_is_nullable = ''YES'', row_ordinal_position = 3\<rparr>]"

definition scenario_env :: env where
  "scenario_env =
     \<lparr>BQ_PROJECT_ID = Some ''proj'', GOOGLE_CLOUD_PROJECT = None,
      BQ_DATASET_SOURCE = None, BQ_DATASET_TARGET = None,
      utcnow = ''2025-01-01T00:00:00''\<rparr>"

definition accepting_guardrails :: guardrails where
  "accepting_guardrails =
     \<lparr>validate_mapping_output = (\<lambda>ms s t. (True, [], [])),
      generate_mapping_explanation = (\<lambda>m. []),
      validate_confidence_threshold = (\<lambda>ms. \<lparr>ca_recommendation = ''MANUAL_REVIEW''\<rparr>),
      generate_risk_assessment =
        (\<lambda>operation details.
           \<lparr>ra_risk_level = ''MEDIUM'', ra_risk_factors = [], ra_mitigations = [],
            ra_recommendation = ''MANUAL_REVIEW''\<rparr>),
      validate_sql_query = (\<lambda>sql. (True, [], [])),
      float_tie_up = (\<lambda>cs. False)\<rparr>"

definition scenario_loaded :: world where
  "scenario_loaded =
     snd (get_target_schema scenario_env (QueryResult scenario_target_rows) ''tgt''
       (snd (get_source_schema scenario_env (QueryResult scenario_source_rows) ''src''
          initial_world)))"

definition scenario_suggested :: world where
  "scenario_suggested =
     snd (suggest_column_mappings accepting_guardrails ''cust_src'' ''customer'' scenario_loaded)"

definition scenario_approved :: world where
  "scenario_approved =
     snd (approve_mappings scenario_env ''cust_src'' ''customer'' True scenario_suggested)"

text \<open>
  The second scenario: the same column name with different declared types.
\<close>

definition amount_float :: "string \<times> column" where
  "amount_float =
     (''amount'', \<lparr>name = ''amount'', type = ''FLOAT64'', nullable = True, position = 1\<rparr>)"

definition amount_numeric :: "string \<times> column" where
  "amount_numeric =
     (''amount'', \<lparr>name = ''amount'', type = ''NUMERIC'', nullable = True, position = 1\<rparr>)"

text \<open>The columns of the first scenario, as the items of the two column dictionaries.\<close>

definition cust_id :: "string \<times> column" where
  "cust_id =
     (''cust_id'', \<lparr>name = ''cust_id'', type = ''INT64'', nullable = True, position = 1\<rparr>)"

definition cust_name :: "string \<times> column" where
  "cust_name =
     (''cust_name'', \<lparr>name = ''cust_name'', type = ''STRING'', nullable = True, position = 2\<rparr>)"

definition customer_id :: "string \<times> column" where
  "customer_id =
     (''customer_id'',
      \<lparr>name = ''customer_id'', type = ''INT64'', nullable = True, position = 1\<rparr>)"

definition customer_name :: "string \<times> column" where
  "customer_name =
     (''customer_name'',
      \<lparr>name = ''customer_name'', type = ''STRING'', nullable = True, position = 2\<rparr>)"

definition customer_status :: "string \<times> column" where
  "customer_status =
     (''customer_status'',
      \<lparr>name = ''customer_status'', type = ''STRING'', nullable = True, position = 3\<rparr>)"

text \<open>What the scenario's calls return, and the mappings of a returned mapping set.\<close>

fun result_mappings :: "pydict + mapping_set \<Rightarrow> mapping list" where
  "result_mappings (Inl e) = []"
| "result_mappings (Inr r) = mappings r"

definition scenario_result :: "pydict + mapping_set" where
  "scenario_result =
     fst (suggest_column_mappings accepting_guardrails ''cust_src'' ''customer'' scenario_loaded)"

definition scenario_sql :: "(pydict + generated_sql) ret" where
  "scenario_sql =
     fst (generate_transformation_sql accepting_guardrails scenario_env ''cust_src'' ''customer''
            scenario_approved)"

text \<open>
  Two pairs of table names with the same key, in a session whose snapshots hold all
  four tables.
\<close>

definition colliding_source_rows :: "row list" where
  "colliding_source_rows =
     [\<lparr>row_table_name = ''a_to_b'', row_column_name = ''x'',
       row_data_type = ''INT64'', row_is_nullable = ''YES'', row_ordinal_position = 1\<rparr>,
      \<lparr>row_table_name = ''a'', row_column_name = ''y'',
       row_data_type = ''STRING'', row_is_nullable = ''YES'', row_ordinal_position = 1\<rparr>]"

definition colliding_target_rows :: "row list" where
  "colliding_target_rows =
     [\<lparr>row_table_name = ''c'', row_column_name = ''x'',
       row_data_type = ''INT64'', row_is_nullable = ''YES'', row_ordinal_position = 1\<rparr>,
      \<lparr>row_table_name = ''b_to_c'', row_column_name = ''y'',
       row_data_type = ''STRING'', row_is_nullable = ''YES'', row_ordinal_position = 1\<rparr>]"

definition colliding_loaded :: world where
  "colliding_loaded =
     snd (get_target_schema scenario_env (QueryResult colliding_target_rows) ''tgt''
       (snd (get_source_schema scenario_env (QueryResult colliding_source_rows) ''src''
          initial_world)))"

definition colliding_first :: world where
  "colliding_first =
     snd (suggest_column_mappings accepting_guardrails ''a_to_b'' ''c'' colliding_loaded)"

definition colliding_second :: world where
  "colliding_second =
     snd (suggest_column_mappings accepting_guardrails ''a'' ''b_to_c'' colliding_first)"

text \<open>The source table of a stored mapping set, when there is one.\<close>

definition stored_source_table :: "mapping_set option \<Rightarrow> string option" where
  "stored_source_table x = map_option source_table x"

definition stored_target_columns :: "mapping_set option \<Rightarrow> string list option" where
  "stored_target_columns x = map_option (\<lambda>r. map target_column (mappings r)) x"

text \<open>Three mapped columns whose confidences do not average to a hundredth.\<close>

definition rounding_source_rows :: "row list" where
  "rounding_source_rows =
     [\<lparr>row_table_name = ''loan_src'', row_column_name = ''amount'',
       row_data_type = ''FLOAT64'', row_is_nullable = ''YES'', row_ordinal_position = 1\<rparr>,
      \<lparr>row_table_name = ''loan_src'', row_column_name = ''cust_id'',
       row_data_type = ''INT64'', row_is_nullable = ''YES'', row_ordinal_position = 2\<rparr>,
      \<lparr>row_table_name = ''loan_src'', row_column_name = ''cust_key'',
       row_data_type = ''INT64'', row_is_nullable = ''YES'', row_ordinal_position = 3\<rparr>]"

definition rounding_target_rows :: "row list" where
  "rounding_target_rows =
     [\<lparr>row_table_name = ''loan'', row_column_name = ''amount'',
       row_data_type = ''FLOAT64'', row_is_nullable = ''YES'', row_ordinal_position = 1\<rparr>,
      \<lparr>row_table_name = ''loan'', row_column_name = ''customer_id'',
       row_data_type = ''INT64'', row_is_nullable = ''YES'', row_ordinal_position = 2\<rparr>,
      \<lparr>row_table_name = ''loan'', row_column_name = ''customer_key'',
       row_data_type = ''INT64'', row_is_nullable = ''YES'', row_ordinal_position = 3\<rparr>]"

definition rounding_loaded :: world where
  "rounding_loaded =
     snd (get_target_schema scenario_env (QueryResult rounding_target_rows) ''tgt''
       (snd (get_source_schema scenario_env (QueryResult rounding_source_rows) ''src''
          initial_world)))"

definition rounding_result :: "pydict + mapping_set" where
  "rounding_result =
     fst (suggest_column_mappings accepting_guardrails ''loan_src'' ''loan'' rounding_loaded)"

fun result_of :: "pydict + mapping_set \<Rightarrow> mapping_set option" where
  "result_of (Inl e) = None"
| "result_of (Inr r) = Some r"

definition cust_key :: "string \<times> column" where
  "cust_key =
     (''cust_key'', \<lparr>name = ''cust_key'', type = ''INT64'', nullable = True, position = 3\<rparr>)"

definition customer_key :: "string \<times> column" where
  "customer_key =
     (''customer_key'',
      \<lparr>name = ''customer_key'', type = ''INT64'', nullable = True, position = 3\<rparr>)"

text \<open>
  The scenario's source table against a target table whose first column has no
  counterpart: \<open>customer_rev(customer_status STRING, customer_id INT64)\<close>.
\<close>

definition status_first_target_rows :: "row list" where
  "status_first_target_rows =
     [\<lparr>row_table_name = ''customer_rev'', row_column_name = ''customer_status'',
       row_data_type = ''STRING'', row_is_nullable = ''YES'', row_ordinal_position = 1\<rparr>,
      \<lparr>row_table_name = ''customer_rev'', row_column_name = ''customer_id'',
       row_data_type = ''INT64'', row_is_nullable = ''YES'', row_ordinal_position = 2\<rparr>]"

definition status_first_approved :: world where
  "status_first_approved =
     snd (approve_mappings scenario_env ''cust_src'' ''customer_rev'' True
       (snd (suggest_column_mappings accepting_guardrails ''cust_src'' ''customer_rev''
         (snd (get_target_schema scenario_env (QueryResult status_first_target_rows) ''tgt''
           (snd (get_source_schema scenario_env (QueryResult scenario_source_rows) ''src''
              initial_world)))))))"

definition status_first_sql :: "(pydict + generated_sql) ret" where
  "status_first_sql =
     fst (generate_transformation_sql accepting_guardrails scenario_env ''cust_src''
            ''customer_rev'' status_first_approved)"

fun sql_of :: "(pydict + generated_sql) ret \<Rightarrow> generated_sql option" where
  "sql_of (Returned (Inr g)) = Some g"
| "sql_of (Returned (Inl e)) = None"
| "sql_of (Raised e) = None"

definition mapped_target_columns :: "mapping_set option \<Rightarrow> string list option" where
  "mapped_target_columns x = map_option (\<lambda>r. map target_column (filter mapped (mappings r))) x"

text \<open>The mapping set of the first scenario and the select list made from it.\<close>

definition scenario_set :: mapping_set where
  "scenario_set =
     suggest_result accepting_guardrails ''cust_src'' ''customer''
       [cust_id, cust_name] [customer_id, customer_name, customer_status]"

definition scenario_select :: string where
  "scenario_select = join ('','' @ nl) (map select_column (mappings scenario_set))"

text \<open>A warehouse whose client cannot be built.\<close>

definition unreachable_warehouse :: "string \<Rightarrow> bool \<Rightarrow> query_job bq" where
  "unreachable_warehouse sql dry_run = ClientFailure ''no credentials''"

text \<open>
  The second scenario as tables: \<open>ledger_src(amount FLOAT64)\<close> against
  \<open>ledger(amount NUMERIC)\<close>.
\<close>

definition ledger_source_rows :: "row list" where
  "ledger_source_rows =
     [\<lparr>row_table_name = ''ledger_src'', row_column_name = ''amount'',
       row_data_type = ''FLOAT64'', row_is_nullable = ''YES'', row_ordinal_position = 1\<rparr>]"

definition ledger_target_rows :: "row list" where
  "ledger_target_rows =
     [\<lparr>row_table_name = ''ledger'', row_column_name = ''amount'',
       row_data_type = ''NUMERIC'', row_is_nullable = ''YES'', row_ordinal_position = 1\<rparr>]"

definition ledger_loaded :: world where
  "ledger_loaded =
     snd (get_target_schema scenario_env (QueryResult ledger_target_rows) ''tgt''
       (snd (get_source_schema scenario_env (QueryResult ledger_source_rows) ''src''
          initial_world)))"

text \<open>
  Two mapped columns whose confidences, \<open>0.95\<close> and \<open>0.60\<close>, average to \<open>0.775\<close>:
  \<open>pay_src(amount FLOAT64, cust_id INT64)\<close> against
  \<open>pay(amount FLOAT64, customer_id INT64)\<close>.
\<close>

definition pay_source_rows :: "row list" where
  "pay_source_rows =
     [\<lparr>row_table_name = ''pay_src'', row_column_name = ''amount'',
       row_data_type = ''FLOAT64'', row_is_nullable = ''YES'', row_ordinal_position = 1\<rparr>,
      \<lparr>row_table_name = ''pay_src'', row_column_name = ''cust_id'',
       row_data_type = ''INT64'', row_is_nullable = ''YES'', row_ordinal_position = 2\<rparr>]"

definition pay_target_rows :: "row list" where
  "pay_target_rows =
     [\<lparr>row_table_name = ''pay'', row_column_name = ''amount'',
       row_data_type = ''FLOAT64'', row_is_nullable = ''YES'', row_ordinal_position = 1\<rparr>,
      \<lparr>row_table_name = ''pay'', row_column_name = ''customer_id'',
       row_data_type = ''INT64'', row_is_nullable = ''YES'', row_ordinal_position = 2\<rparr>]"

definition pay_loaded :: world where
  "pay_loaded =
     snd (get_target_schema scenario_env (QueryResult pay_target_rows) ''tgt''
       (snd (get_source_schema scenario_env (QueryResult pay_source_rows) ''src''
          initial_world)))"

section \<open>Properties of the loops, the result and the session\<close>

lemma rule_confidence_values:
  "rule_confidence a b = Some c \<Longrightarrow> c = 0.95 \<or> c = 0.75 \<or> c = 0.60"
  by (auto simp: rule_confidence_def split: if_splits)

lemma candidate_values:
  "candidate s t = Some (c, tr) \<Longrightarrow> c \<in> {0.95, 0.85, 0.75, 0.65, 0.60, 0.5}"
  by (auto simp: candidate_def split: option.splits if_splits dest!: rule_confidence_values)

lemma round2_fixed:
  "round2 0.95 = 0.95" "round2 0.85 = 0.85" "round2 0.75 = 0.75" "round2 0.65 = 0.65"
  "round2 0.60 = 0.60" "round2 0.5 = 0.5" "round2 0 = 0"
  by code_simp+

lemma round2_values:
  "c \<in> {0.95, 0.85, 0.75, 0.65, 0.60, 0.5, 0} \<Longrightarrow> round2 c = c"
  by (elim insertE emptyE) (simp_all only: round2_fixed)

lemma best_loop_inv:
  "best_loop ss t (bm, bc, tr) = (bm', bc', tr') \<Longrightarrow>
     ((bm', bc', tr') = (bm, bc, tr) \<and> (\<forall>s \<in> set ss. \<forall>c x. candidate s t = Some (c, x) \<longrightarrow> c \<le> bc))
     \<or> (\<exists>i < length ss. candidate (ss ! i) t = Some (bc', tr') \<and> bm' = Some (fst (ss ! i)) \<and> bc < bc'
           \<and> (\<forall>j < i. \<forall>c x. candidate (ss ! j) t = Some (c, x) \<longrightarrow> c < bc')
           \<and> (\<forall>j < length ss. \<forall>c x. candidate (ss ! j) t = Some (c, x) \<longrightarrow> c \<le> bc'))"
proof (induction ss arbitrary: bm bc tr)
  case Nil
  then show ?case by simp
next
  case (Cons s ss)
  show ?case
  proof (cases "candidate s t")
    case None
    with Cons.prems have "best_loop ss t (bm, bc, tr) = (bm', bc', tr')" by simp
    from Cons.IH[OF this] show ?thesis
    proof
      assume "(bm', bc', tr') = (bm, bc, tr) \<and> (\<forall>s \<in> set ss. \<forall>c x. candidate s t = Some (c, x) \<longrightarrow> c \<le> bc)"
      with None show ?thesis by auto
    next
      assume "\<exists>i < length ss. candidate (ss ! i) t = Some (bc', tr') \<and> bm' = Some (fst (ss ! i)) \<and> bc < bc'
           \<and> (\<forall>j < i. \<forall>c x. candidate (ss ! j) t = Some (c, x) \<longrightarrow> c < bc')
           \<and> (\<forall>j < length ss. \<forall>c x. candidate (ss ! j) t = Some (c, x) \<longrightarrow> c \<le> bc')"
      then obtain i where i: "i < length ss" "candidate (ss ! i) t = Some (bc', tr')" "bm' = Some (fst (ss ! i))" "bc < bc'"
        "\<forall>j < i. \<forall>c x. candidate (ss ! j) t = Some (c, x) \<longrightarrow> c < bc'"
        "\<forall>j < length ss. \<forall>c x. candidate (ss ! j) t = Some (c, x) \<longrightarrow> c \<le> bc'" by blast
      have "Suc i < length (s # ss)" using i(1) by simp
      moreover have "candidate ((s # ss) ! Suc i) t = Some (bc', tr')" using i(2) by simp
      moreover have "bm' = Some (fst ((s # ss) ! Suc i))" using i(3) by simp
      moreover have "\<forall>j < Suc i. \<forall>c x. candidate ((s # ss) ! j) t = Some (c, x) \<longrightarrow> c < bc'"
        using i(5) None by (auto simp: nth_Cons split: nat.splits)
      moreover have "\<forall>j < length (s # ss). \<forall>c x. candidate ((s # ss) ! j) t = Some (c, x) \<longrightarrow> c \<le> bc'"
        using i(6) None by (auto simp: nth_Cons split: nat.splits)
      ultimately show ?thesis using i(4) by blast
    qed
  next
    case (Some p)
    obtain c0 x0 where p: "p = (c0, x0)" by (cases p)
    show ?thesis
    proof (cases "c0 > bc")
      case True
      with Some p Cons.prems have "best_loop ss t (Some (fst s), c0, x0) = (bm', bc', tr')" by simp
      from Cons.IH[OF this] show ?thesis
      proof
        assume a: "(bm', bc', tr') = (Some (fst s), c0, x0) \<and> (\<forall>s \<in> set ss. \<forall>c x. candidate s t = Some (c, x) \<longrightarrow> c \<le> c0)"
        have "0 < length (s # ss)" by simp
        moreover have "candidate ((s # ss) ! 0) t = Some (bc', tr')" using a Some p by simp
        moreover have "bm' = Some (fst ((s # ss) ! 0))" using a by simp
        moreover have "\<forall>j < length (s # ss). \<forall>c x. candidate ((s # ss) ! j) t = Some (c, x) \<longrightarrow> c \<le> bc'"
          using a Some p by (auto simp: nth_Cons all_set_conv_all_nth split: nat.splits)
        moreover have "bc < bc'" using a True by simp
        ultimately show ?thesis by blast
      next
        assume "\<exists>i < length ss. candidate (ss ! i) t = Some (bc', tr') \<and> bm' = Some (fst (ss ! i)) \<and> c0 < bc'
           \<and> (\<forall>j < i. \<forall>c x. candidate (ss ! j) t = Some (c, x) \<longrightarrow> c < bc')
           \<and> (\<forall>j < length ss. \<forall>c x. candidate (ss ! j) t = Some (c, x) \<longrightarrow> c \<le> bc')"
        then obtain i where i: "i < length ss" "candidate (ss ! i) t = Some (bc', tr')" "bm' = Some (fst (ss ! i))" "c0 < bc'"
          "\<forall>j < i. \<forall>c x. candidate (ss ! j) t = Some (c, x) \<longrightarrow> c < bc'"
          "\<forall>j < length ss. \<forall>c x. candidate (ss ! j) t = Some (c, x) \<longrightarrow> c \<le> bc'" by blast
        have "Suc i < length (s # ss)" using i(1) by simp
        moreover have "candidate ((s # ss) ! Suc i) t = Some (bc', tr')" using i(2) by simp
        moreover have "bm' = Some (fst ((s # ss) ! Suc i))" using i(3) by simp
        moreover have "\<forall>j < Suc i. \<forall>c x. candidate ((s # ss) ! j) t = Some (c, x) \<longrightarrow> c < bc'"
          using i(5) i(4) Some p by (auto simp: nth_Cons split: nat.splits)
        moreover have "\<forall>j < length (s # ss). \<forall>c x. candidate ((s # ss) ! j) t = Some (c, x) \<longrightarrow> c \<le> bc'"
          using i(6) i(4) Some p by (auto simp: nth_Cons split: nat.splits)
        moreover have "bc < bc'" using True i(4) by simp
        ultimately show ?thesis by blast
      qed
    next
      case False
      with Some p Cons.prems have "best_loop ss t (bm, bc, tr) = (bm', bc', tr')" by simp
      from Cons.IH[OF this] show ?thesis
      proof
        assume "(bm', bc', tr') = (bm, bc, tr) \<and> (\<forall>s \<in> set ss. \<forall>c x. candidate s t = Some (c, x) \<longrightarrow> c \<le> bc)"
        with Some p False show ?thesis by auto
      next
        assume "\<exists>i < length ss. candidate (ss ! i) t = Some (bc', tr') \<and> bm' = Some (fst (ss ! i)) \<and> bc < bc'
           \<and> (\<forall>j < i. \<forall>c x. candidate (ss ! j) t = Some (c, x) \<longrightarrow> c < bc')
           \<and> (\<forall>j < length ss. \<forall>c x. candidate (ss ! j) t = Some (c, x) \<longrightarrow> c \<le> bc')"
        then obtain i where i: "i < length ss" "candidate (ss ! i) t = Some (bc', tr')" "bm' = Some (fst (ss ! i))" "bc < bc'"
          "\<forall>j < i. \<forall>c x. candidate (ss ! j) t = Some (c, x) \<longrightarrow> c < bc'"
          "\<forall>j < length ss. \<forall>c x. candidate (ss ! j) t = Some (c, x) \<longrightarrow> c \<le> bc'" by blast
        have "Suc i < length (s # ss)" using i(1) by simp
        moreover have "candidate ((s # ss) ! Suc i) t = Some (bc', tr')" using i(2) by simp
        moreover have "bm' = Some (fst ((s # ss) ! Suc i))" using i(3) by simp
        moreover have "\<forall>j < Suc i. \<forall>c x. candidate ((s # ss) ! j) t = Some (c, x) \<longrightarrow> c < bc'"
          using i(5) i(4) Some p False by (auto simp: nth_Cons split: nat.splits)
        moreover have "\<forall>j < length (s # ss). \<forall>c x. candidate ((s # ss) ! j) t = Some (c, x) \<longrightarrow> c \<le> bc'"
          using i(6) i(4) Some p False by (auto simp: nth_Cons split: nat.splits)
        ultimately show ?thesis using i(4) by blast
      qed
    qed
  qed
qed

lemma candidate_pos: "candidate s t = Some (c, tr) \<Longrightarrow> 0 < c"
  by (drule candidate_values) (elim insertE emptyE, simp_all)

lemma candidate_round2: "candidate s t = Some (c, tr) \<Longrightarrow> round2 c = c"
  by (drule candidate_values) (elim insertE emptyE, simp_all only: round2_fixed)

lemma make_mapping_chosen:
  "(source_column (make_mapping source_cols t) = None \<and> confidence (make_mapping source_cols t) = 0
      \<and> transformation (make_mapping source_cols t) = None
      \<and> (\<forall>s \<in> set source_cols. candidate s t = None))
   \<or> (\<exists>i < length source_cols.
         source_column (make_mapping source_cols t) = Some (fst (source_cols ! i))
       \<and> candidate (source_cols ! i) t
           = Some (confidence (make_mapping source_cols t), transformation (make_mapping source_cols t))
       \<and> (\<forall>j < i. \<forall>c x. candidate (source_cols ! j) t = Some (c, x)
              \<longrightarrow> c < confidence (make_mapping source_cols t))
       \<and> (\<forall>j < length source_cols. \<forall>c x. candidate (source_cols ! j) t = Some (c, x)
              \<longrightarrow> c \<le> confidence (make_mapping source_cols t)))"
proof -
  obtain bm bc tr where r: "best_loop source_cols t (None, 0, None) = (bm, bc, tr)"
    by (cases "best_loop source_cols t (None, 0, None)") auto
  have m: "source_column (make_mapping source_cols t) = bm"
    "confidence (make_mapping source_cols t) = round2 bc"
    "transformation (make_mapping source_cols t) = tr"
    using r by (simp_all add: make_mapping_def)
  from best_loop_inv[OF r] show ?thesis
  proof
    assume a: "(bm, bc, tr) = (None, 0, None)
      \<and> (\<forall>s \<in> set source_cols. \<forall>c x. candidate s t = Some (c, x) \<longrightarrow> c \<le> 0)"
    have "candidate s t = None" if "s \<in> set source_cols" for s
    proof (cases "candidate s t")
      case None then show ?thesis .
    next
      case (Some p)
      obtain c x where p: "p = (c, x)" by (cases p)
      with Some a that have "c \<le> 0" by blast
      moreover from Some p have "0 < c" by (simp add: candidate_pos)
      ultimately show ?thesis by simp
    qed
    then have "\<forall>s \<in> set source_cols. candidate s t = None" by blast
    moreover from a have "bm = None" "bc = 0" "tr = None" by simp_all
    ultimately show ?thesis using m round2_fixed(7) by simp
  next
    assume "\<exists>i < length source_cols. candidate (source_cols ! i) t = Some (bc, tr)
       \<and> bm = Some (fst (source_cols ! i)) \<and> 0 < bc
       \<and> (\<forall>j < i. \<forall>c x. candidate (source_cols ! j) t = Some (c, x) \<longrightarrow> c < bc)
       \<and> (\<forall>j < length source_cols. \<forall>c x. candidate (source_cols ! j) t = Some (c, x) \<longrightarrow> c \<le> bc)"
    then obtain i where i: "i < length source_cols" "candidate (source_cols ! i) t = Some (bc, tr)"
      "bm = Some (fst (source_cols ! i))"
      "\<forall>j < i. \<forall>c x. candidate (source_cols ! j) t = Some (c, x) \<longrightarrow> c < bc"
      "\<forall>j < length source_cols. \<forall>c x. candidate (source_cols ! j) t = Some (c, x) \<longrightarrow> c \<le> bc"
      by blast
    have "round2 bc = bc" by (rule candidate_round2[OF i(2)])
    with m have m': "source_column (make_mapping source_cols t) = bm"
    "confidence (make_mapping source_cols t) = bc"
    "transformation (make_mapping source_cols t) = tr" by simp_all
    show ?thesis unfolding m' using i by blast
  qed
qed

lemma make_mapping_nonneg: "0 \<le> confidence (make_mapping source_cols t)"
proof -
  from make_mapping_chosen[of source_cols t] show ?thesis
  proof
    assume "source_column (make_mapping source_cols t) = None \<and> confidence (make_mapping source_cols t) = 0
      \<and> transformation (make_mapping source_cols t) = None
      \<and> (\<forall>s \<in> set source_cols. candidate s t = None)"
    then show ?thesis by simp
  next
    assume "\<exists>i < length source_cols.
         source_column (make_mapping source_cols t) = Some (fst (source_cols ! i))
       \<and> candidate (source_cols ! i) t
           = Some (confidence (make_mapping source_cols t), transformation (make_mapping source_cols t))
       \<and> (\<forall>j < i. \<forall>c x. candidate (source_cols ! j) t = Some (c, x)
              \<longrightarrow> c < confidence (make_mapping source_cols t))
       \<and> (\<forall>j < length source_cols. \<forall>c x. candidate (source_cols ! j) t = Some (c, x)
              \<longrightarrow> c \<le> confidence (make_mapping source_cols t))"
    then obtain i where "candidate (source_cols ! i) t
           = Some (confidence (make_mapping source_cols t), transformation (make_mapping source_cols t))"
      by blast
    from candidate_pos[OF this] show ?thesis by simp
  qed
qed





lemma mapping_loop_eq: "mapping_loop source_cols ts acc = acc @ map (make_mapping source_cols) ts"
  by (induction ts arbitrary: acc) simp_all

lemma make_mapping_le_one: "confidence (make_mapping source_cols t) \<le> 1"
proof -
  from make_mapping_chosen[of source_cols t] show ?thesis
  proof
    assume "source_column (make_mapping source_cols t) = None \<and> confidence (make_mapping source_cols t) = 0
      \<and> transformation (make_mapping source_cols t) = None
      \<and> (\<forall>s \<in> set source_cols. candidate s t = None)"
    then show ?thesis by simp
  next
    assume "\<exists>i < length source_cols.
         source_column (make_mapping source_cols t) = Some (fst (source_cols ! i))
       \<and> candidate (source_cols ! i) t
           = Some (confidence (make_mapping source_cols t), transformation (make_mapping source_cols t))
       \<and> (\<forall>j < i. \<forall>c x. candidate (source_cols ! j) t = Some (c, x)
              \<longrightarrow> c < confidence (make_mapping source_cols t))
       \<and> (\<forall>j < length source_cols. \<forall>c x. candidate (source_cols ! j) t = Some (c, x)
              \<longrightarrow> c \<le> confidence (make_mapping source_cols t))"
    then obtain i where "candidate (source_cols ! i) t
           = Some (confidence (make_mapping source_cols t), transformation (make_mapping source_cols t))"
      by blast
    from candidate_values[OF this] show ?thesis by (elim insertE emptyE) simp_all
  qed
qed

lemma round2_float_near:
  "\<exists>k::int. round2_float up x = of_int k / 100 \<and> \<bar>round2_float up x - x\<bar> \<le> 1 / 200"
proof -
  define f where "f = \<lfloor>x * 100\<rfloor>"
  define d where "d = x * 100 - of_int f"
  define r where "r = (if d < 1/2 then f else if 1/2 < d then f + 1 else if up then f + 1 else f)"
  have rd: "round2_float up x = of_int r / 100"
    by (simp add: round2_float_def Let_def f_def d_def r_def)
  have d0: "0 \<le> d" by (simp add: d_def f_def)
  have d1: "d < 1" unfolding d_def f_def by linarith
  have "\<bar>of_int r - x * 100\<bar> \<le> 1 / 2"
  proof (cases "d < 1/2")
    case True
    then have "r = f" by (simp add: r_def)
    with True d0 show ?thesis by (simp add: d_def)
  next
    case False
    show ?thesis
    proof (cases "1/2 < d")
      case True
      with False have "r = f + 1" by (simp add: r_def)
      with True d1 show ?thesis by (simp add: d_def)
    next
      case above: False
      with False have dh: "d = 1/2" by simp
      have "r = f \<or> r = f + 1" by (simp add: r_def)
      with dh show ?thesis by (auto simp: d_def)
    qed
  qed
  then have "\<bar>of_int r / 100 - x\<bar> \<le> 1 / 200" unfolding abs_le_iff by linarith
  then have "\<bar>round2_float up x - x\<bar> \<le> 1 / 200" by (simp only: rd)
  with rd show ?thesis by (intro exI[of _ r] conjI)
qed

lemma round2_float_unit:
  assumes "0 \<le> x" and "x \<le> 1"
  shows "0 \<le> round2_float up x \<and> round2_float up x \<le> 1"
proof -
  define f where "f = \<lfloor>x * 100\<rfloor>"
  define d where "d = x * 100 - of_int f"
  define r where "r = (if d < 1/2 then f else if 1/2 < d then f + 1 else if up then f + 1 else f)"
  have rd: "round2_float up x = of_int r / 100"
    by (simp add: round2_float_def Let_def f_def d_def r_def)
  have f0: "0 \<le> f" using assms(1) by (simp add: f_def)
  have fle: "of_int f \<le> x * 100" by (simp add: f_def)
  have x100: "x * 100 \<le> 100" using assms(2) by simp
  have f100: "f \<le> 100" using fle x100 by linarith
  have "f \<le> r" by (simp add: r_def)
  with f0 have r0: "0 \<le> r" by simp
  have r100: "r \<le> 100"
  proof (cases "f = 100")
    case True
    with fle x100 have "d = 0" by (simp add: d_def)
    with True show ?thesis by (simp add: r_def)
  next
    case False
    with f100 have "f + 1 \<le> 100" by simp
    moreover have "r \<le> f + 1" by (simp add: r_def)
    ultimately show ?thesis by simp
  qed
  from r0 r100 show ?thesis by (simp add: rd)
qed

lemma round2_float_zero: "round2_float up 0 = 0"
  by (simp add: round2_float_def)

lemma sum_list_unit:
  "(\<forall>c \<in> set cs. 0 \<le> c \<and> c \<le> (1::rat)) \<Longrightarrow> 0 \<le> sum_list cs \<and> sum_list cs \<le> of_nat (length cs)"
  by (induction cs) auto

lemma quotient_unit:
  fixes s :: rat
  assumes "0 \<le> s" and "s \<le> of_nat n"
  shows "0 \<le> s / of_nat (max n 1) \<and> s / of_nat (max n 1) \<le> 1"
proof (cases "n = 0")
  case True
  with assms show ?thesis by simp
next
  case False
  then have m: "max n 1 = n" by simp
  from False have "(0::rat) < of_nat n" by simp
  with assms show ?thesis unfolding m by (simp add: divide_le_eq)
qed

lemma average_of_unit:
  assumes "\<forall>m \<in> set ms. 0 \<le> confidence m \<and> confidence m \<le> 1"
  shows "0 \<le> average_of tie_up ms \<and> average_of tie_up ms \<le> 1"
proof -
  have "\<forall>c \<in> set (mapped_confidences ms). 0 \<le> c \<and> c \<le> 1"
    using assms by (auto simp: mapped_confidences_def)
  from sum_list_unit[OF this]
  have "0 \<le> sum_list (mapped_confidences ms)"
    "sum_list (mapped_confidences ms) \<le> of_nat (length (filter mapped ms))"
    by (simp_all add: mapped_confidences_def)
  from quotient_unit[OF this] round2_float_unit show ?thesis
    by (simp add: average_of_def)
qed

lemma suggest_returns_result:
  assumes "fst (suggest_column_mappings G src tgt st) = Inr r"
  shows "\<exists>source_cols target_cols. source_cols \<noteq> [] \<and> target_cols \<noteq> []
           \<and> r = suggest_result G src tgt source_cols target_cols"
  using assms
  by (auto simp: suggest_column_mappings_def Let_def split: option.splits if_splits)

lemma suggest_result_fields:
  "mappings (suggest_result G src tgt source_cols target_cols)
     = map (make_mapping source_cols) target_cols"
  "mapping_count (suggest_result G src tgt source_cols target_cols)
     = length (filter mapped (map (make_mapping source_cols) target_cols))"
  "average_confidence (suggest_result G src tgt source_cols target_cols)
     = average_of (float_tie_up G) (map (make_mapping source_cols) target_cols)"
  by (simp_all add: suggest_result_def Let_def mapping_loop_eq)

lemma suggest_accepts:
  assumes "source_schema st = Some ss" and "target_schema st = Some ts"
    and "find_table_cols (tables ss) src = Some source_cols" and "source_cols \<noteq> []"
    and "find_table_cols (tables ts) tgt = Some target_cols" and "target_cols \<noteq> []"
  shows "fst (suggest_column_mappings G src tgt st)
           = Inr (suggest_result G src tgt source_cols target_cols)"
  using assms by (simp add: suggest_column_mappings_def Let_def)

lemma make_mapping_target_type: "target_type (make_mapping source_cols t) = type (snd t)"
  by (simp add: make_mapping_def split: prod.splits)

lemma select_loop_eq: "select_loop ms acc = acc @ map select_column ms"
  by (induction ms arbitrary: acc) simp_all

lemma select_column_cases:
  "select_column m =
     (if mapped m
      then ''  ''
           @ (if truthy (transformation m)
              then str_replace ''{source}'' (the (source_column m)) (the (transformation m))
              else the (source_column m))
           @ '' AS '' @ target_column m
      else ''  NULL AS '' @ target_column m)"
  by (cases "source_column m"; cases "transformation m")
     (simp_all add: select_column_def mapped_def)

lemma dict_fold_distinct:
  "distinct (map fst d) \<Longrightarrow> distinct (map fst (fold (\<lambda>c d. AList.update (name c) c d) cols d))"
  by (induction cols arbitrary: d) (simp_all add: distinct_update)

lemma dict_of_columns_distinct: "distinct (map fst (dict_of_columns cols))"
  by (simp add: dict_of_columns_def dict_fold_distinct)

lemma find_table_cols_distinct:
  "find_table_cols ts n = Some d \<Longrightarrow> distinct (map fst d)"
  by (induction ts) (auto simp: dict_of_columns_distinct split: if_splits)

lemma make_mapping_target: "target_column (make_mapping source_cols t) = fst t"
  by (simp add: make_mapping_def split: prod.splits)

lemma suggest_result_targets:
  "map target_column (mappings (suggest_result G src tgt source_cols target_cols))
     = map fst target_cols"
  by (simp add: suggest_result_fields make_mapping_target comp_def)

lemma suggest_cases:
  "(\<exists>e. suggest_column_mappings G src tgt st = (Inl e, st))
   \<or> (\<exists>ss ts source_cols target_cols.
         source_schema st = Some ss \<and> target_schema st = Some ts
       \<and> find_table_cols (tables ss) src = Some source_cols \<and> source_cols \<noteq> []
       \<and> find_table_cols (tables ts) tgt = Some target_cols \<and> target_cols \<noteq> []
       \<and> suggest_column_mappings G src tgt st
           = (Inr (suggest_result G src tgt source_cols target_cols),
              (suggest_audit src tgt (suggest_result G src tgt source_cols target_cols) st)
                \<lparr>suggested_mappings :=
                   (suggested_mappings st)(mapping_key src tgt \<mapsto>
                      suggest_result G src tgt source_cols target_cols)\<rparr>))"
  by (auto simp: suggest_column_mappings_def Let_def suggest_audit_def log_audit_event_def
           split: option.splits)

lemma suggest_audit_frame:
  "source_schema (suggest_audit src tgt r st) = source_schema st"
  "target_schema (suggest_audit src tgt r st) = target_schema st"
  "suggested_mappings (suggest_audit src tgt r st) = suggested_mappings st"
  "approved_mappings (suggest_audit src tgt r st) = approved_mappings st"
  "generated_sql (suggest_audit src tgt r st) = generated_sql st"
  by (simp_all add: suggest_audit_def log_audit_event_def split: option.splits)

lemma schema_frame:
  "suggested_mappings (snd (get_source_schema E answer ds st)) = suggested_mappings st"
  "approved_mappings (snd (get_source_schema E answer ds st)) = approved_mappings st"
  "suggested_mappings (snd (get_target_schema E answer ds st)) = suggested_mappings st"
  "approved_mappings (snd (get_target_schema E answer ds st)) = approved_mappings st"
  by (simp_all add: get_source_schema_def get_target_schema_def Let_def split: bq.splits)

lemma generate_frame:
  "suggested_mappings (snd (generate_transformation_sql G E src tgt st)) = suggested_mappings st"
  "approved_mappings (snd (generate_transformation_sql G E src tgt st)) = approved_mappings st"
  by (simp_all add: generate_transformation_sql_def Let_def log_audit_event_def
        split: option.splits ret.splits prod.splits)

lemma execute_frame:
  "suggested_mappings (snd (execute_transformation E warehouse src tgt dry st))
     = suggested_mappings st"
  "approved_mappings (snd (execute_transformation E warehouse src tgt dry st))
     = approved_mappings st"
  by (simp_all add: execute_transformation_def log_audit_event_def
        split: option.splits bq.splits)

lemma approve_frame:
  "suggested_mappings (snd (approve_mappings E src tgt decision st)) = suggested_mappings st"
  "approved_mappings (snd (approve_mappings E src tgt decision st)) k = Some ms
     \<Longrightarrow> approved_mappings st k = Some ms \<or> suggested_mappings st (mapping_key src tgt) = Some ms"
  by (auto simp: approve_mappings_def log_audit_event_def split: option.splits if_splits)

lemma suggest_stores_nonempty:
  assumes "suggested_mappings (snd (suggest_column_mappings G src tgt st)) k = Some ms"
  shows "suggested_mappings st k = Some ms \<or> mappings ms \<noteq> []"
proof -
  from suggest_cases[of G src tgt st] show ?thesis
  proof
    assume "\<exists>e. suggest_column_mappings G src tgt st = (Inl e, st)"
    with assms show ?thesis by auto
  next
    assume "\<exists>ss ts source_cols target_cols.
         source_schema st = Some ss \<and> target_schema st = Some ts
       \<and> find_table_cols (tables ss) src = Some source_cols \<and> source_cols \<noteq> []
       \<and> find_table_cols (tables ts) tgt = Some target_cols \<and> target_cols \<noteq> []
       \<and> suggest_column_mappings G src tgt st
           = (Inr (suggest_result G src tgt source_cols target_cols),
              (suggest_audit src tgt (suggest_result G src tgt source_cols target_cols) st)
                \<lparr>suggested_mappings :=
                   (suggested_mappings st)(mapping_key src tgt \<mapsto>
                      suggest_result G src tgt source_cols target_cols)\<rparr>)"
    then obtain source_cols target_cols where ne: "target_cols \<noteq> []"
      and eq: "suggest_column_mappings G src tgt st
           = (Inr (suggest_result G src tgt source_cols target_cols),
              (suggest_audit src tgt (suggest_result G src tgt source_cols target_cols) st)
                \<lparr>suggested_mappings :=
                   (suggested_mappings st)(mapping_key src tgt \<mapsto>
                      suggest_result G src tgt source_cols target_cols)\<rparr>)" by blast
    show ?thesis
    proof (cases "k = mapping_key src tgt")
      case True
      with assms eq have "ms = suggest_result G src tgt source_cols target_cols" by simp
      with ne show ?thesis by (simp add: suggest_result_fields)
    next
      case False
      with assms eq show ?thesis by simp
    qed
  qed
qed

lemma suggest_keeps_approved:
  "approved_mappings (snd (suggest_column_mappings G src tgt st)) = approved_mappings st"
  using suggest_cases[of G src tgt st] by (auto simp: suggest_audit_frame)

lemma reachable_nonempty:
  "reachable G st \<Longrightarrow>
     (\<forall>k ms. suggested_mappings st k = Some ms \<longrightarrow> mappings ms \<noteq> [])
     \<and> (\<forall>k ms. approved_mappings st k = Some ms \<longrightarrow> mappings ms \<noteq> [])"
proof (induction rule: reachable.induct)
  case start
  show ?case by (simp add: initial_world_def)
next
  case (source st E answer ds)
  then show ?case by (simp add: schema_frame)
next
  case (target st E answer ds)
  then show ?case by (simp add: schema_frame)
next
  case (suggest st src tgt)
  then show ?case using suggest_stores_nonempty[of G src tgt st]
    by (simp add: suggest_keeps_approved) blast
next
  case (approve st E src tgt decision)
  then show ?case using approve_frame(2)[of E src tgt decision st]
    by (simp add: approve_frame(1)) blast
next
  case (generate st E src tgt)
  then show ?case by (simp add: generate_frame)
next
  case (execute st E warehouse src tgt dry)
  then show ?case by (simp add: execute_frame)
qed

lemma generate_raises_only_on_empty:
  assumes "fst (generate_transformation_sql G E src tgt st) = Raised e"
  shows "\<exists>md. approved_mappings st (mapping_key src tgt) = Some md \<and> mappings md = []"
proof (cases "approved_mappings st (mapping_key src tgt)")
  case None
  with assms show ?thesis by (simp add: generate_transformation_sql_def)
next
  case (Some md)
  show ?thesis
  proof (cases "mappings md")
    case Nil
    with Some show ?thesis by simp
  next
    case (Cons m0 rest)
    with Some assms show ?thesis
      by (simp add: generate_transformation_sql_def Let_def merge_sql_text_def
            split: prod.splits if_splits)
  qed
qed




lemma candidate_cases:
  assumes "rule_confidence (fst s) (fst t) = Some c"
  shows "candidate s t =
           (if type (snd s) \<noteq> type (snd t)
            then Some (c - 0.1, Some (''CAST({source} AS '' @ type (snd t) @ '')''))
            else Some (c, None))"
  using assms by (simp add: candidate_def cast_template_def)

lemma candidate_exact:
  assumes "lower (fst s) = lower (fst t)"
  shows "candidate s t =
           (if type (snd s) = type (snd t) then Some (0.95, None)
            else Some (0.85, Some (''CAST({source} AS '' @ type (snd t) @ '')'')))"
proof -
  from assms have "rule_confidence (fst s) (fst t) = Some 0.95"
    by (simp add: rule_confidence_def)
  then show ?thesis by (simp add: candidate_def cast_template_def)
qed

lemma make_mapping_candidate:
  assumes "source_column (make_mapping source_cols t) = Some b"
  shows "\<exists>col. (b, col) \<in> set source_cols
           \<and> candidate (b, col) t
               = Some (confidence (make_mapping source_cols t),
                       transformation (make_mapping source_cols t))"
proof -
  from make_mapping_chosen[of source_cols t] assms
  obtain i where i: "i < length source_cols"
    "source_column (make_mapping source_cols t) = Some (fst (source_cols ! i))"
    "candidate (source_cols ! i) t
           = Some (confidence (make_mapping source_cols t), transformation (make_mapping source_cols t))"
    by auto
  obtain b' col where bc: "source_cols ! i = (b', col)" by (cases "source_cols ! i")
  with i assms have "b' = b" by simp
  with bc i(1) have "(b, col) \<in> set source_cols" by (metis nth_mem)
  moreover from bc \<open>b' = b\<close> i(3) have "candidate (b, col) t
               = Some (confidence (make_mapping source_cols t),
                       transformation (make_mapping source_cols t))" by simp
  ultimately show ?thesis by blast
qed

lemma suggest_result_nth:
  "n < length target_cols \<Longrightarrow>
     mappings (suggest_result G src tgt source_cols target_cols) ! n
       = make_mapping source_cols (target_cols ! n)"
  by (simp add: suggest_result_fields)

lemma suggest_result_length:
  "length (mappings (suggest_result G src tgt source_cols target_cols)) = length target_cols"
  by (simp add: suggest_result_fields)
lemma candidate_Some_cases:
  assumes "candidate (b, col) t = Some (v, tr)"
  shows "\<exists>c. rule_confidence b (fst t) = Some c
           \<and> (type col \<noteq> type (snd t) \<longrightarrow>
                 v = c - 0.1 \<and> tr = Some (''CAST({source} AS '' @ type (snd t) @ '')''))
           \<and> (type col = type (snd t) \<longrightarrow> v = c \<and> tr = None)
           \<and> (lower b = lower (fst t) \<longrightarrow>
                 v = (if type col = type (snd t) then 0.95 else 0.85))"
proof -
  from assms obtain c where c: "rule_confidence b (fst t) = Some c"
    by (auto simp: candidate_def split: option.splits)
  have ex: "lower b = lower (fst t) \<longrightarrow> c = 0.95"
    using c by (auto simp: rule_confidence_def)
  from assms c have 1: "type col \<noteq> type (snd t) \<longrightarrow>
                 v = c - 0.1 \<and> tr = Some (''CAST({source} AS '' @ type (snd t) @ '')'')"
    by (auto simp: candidate_def cast_template_def)
  from assms c have 2: "type col = type (snd t) \<longrightarrow> v = c \<and> tr = None"
    by (auto simp: candidate_def)
  from 1 2 ex have 3: "lower b = lower (fst t) \<longrightarrow>
                 v = (if type col = type (snd t) then 0.95 else 0.85)"
    by auto
  from c 1 2 3 show ?thesis by blast
qed

lemma make_mapping_penalty:
  assumes "source_column (make_mapping source_cols t) = Some b"
  shows "\<exists>col c. (b, col) \<in> set source_cols
           \<and> rule_confidence b (target_column (make_mapping source_cols t)) = Some c
           \<and> (type col \<noteq> target_type (make_mapping source_cols t) \<longrightarrow>
                 confidence (make_mapping source_cols t) = c - 0.1
               \<and> transformation (make_mapping source_cols t)
                   = Some (''CAST({source} AS '' @ target_type (make_mapping source_cols t)
                           @ '')''))
           \<and> (type col = target_type (make_mapping source_cols t) \<longrightarrow>
                 confidence (make_mapping source_cols t) = c
               \<and> transformation (make_mapping source_cols t) = None)
           \<and> (lower b = lower (target_column (make_mapping source_cols t)) \<longrightarrow>
                 confidence (make_mapping source_cols t)
                   = (if type col = target_type (make_mapping source_cols t)
                      then 0.95 else 0.85))"
proof -
  from make_mapping_candidate[OF assms] obtain col where col: "(b, col) \<in> set source_cols"
    "candidate (b, col) t
       = Some (confidence (make_mapping source_cols t),
               transformation (make_mapping source_cols t))" by blast
  from candidate_Some_cases[OF col(2)] col(1) show ?thesis
    unfolding make_mapping_target make_mapping_target_type by blast
qed

section \<open>The claims\<close>



text \<open>
  C2, as stated, fails on the scenario: \<open>customer_name\<close> is not mapped to \<open>cust_name\<close>.
  \<open>_name\<close> is not one of the listed suffixes, so the two names are compared whole, and
  neither contains the other; the second mapping is unmapped with confidence \<open>0\<close>.
\<close>

theorem scenario_customer_name_counterexample:
  "target_column (result_mappings scenario_result ! 1) = ''customer_name''
   \<and> source_column (result_mappings scenario_result ! 1) = None
   \<and> source_column (result_mappings scenario_result ! 1) \<noteq> Some ''cust_name''
   \<and> confidence (result_mappings scenario_result ! 1) = 0
   \<and> confidence (result_mappings scenario_result ! 1) \<noteq> 0.60
   \<and> status (result_mappings scenario_result ! 1) = ''unmapped''
   \<and> \<not> similar_names ''cust_name'' ''customer_name''"
  by code_simp

text \<open>
  C2, amended. On the scenario \<open>customer_id\<close> is mapped to \<open>cust_id\<close> with confidence
  \<open>0.60\<close> and no cast, \<open>customer_name\<close> and \<open>customer_status\<close> are unmapped with
  confidence \<open>0\<close> and status \<open>unmapped\<close>, the average confidence is \<open>0.60\<close> (over the
  one mapped column), and the generated INSERT selects \<open>cust_id AS customer_id\<close>,
  \<open>NULL AS customer_name\<close> and \<open>NULL AS customer_status\<close>.
\<close>

theorem scenario_end_to_end:
  "(\<exists>r. scenario_result = Inr r
      \<and> mappings r =
          [\<lparr>target_column = ''customer_id'', target_type = ''INT64'',
            source_column = Some ''cust_id'', source_type = Some ''INT64'',
            confidence = 0.60, transformation = None, status = ''suggested''\<rparr>,
           \<lparr>target_column = ''customer_name'', target_type = ''STRING'',
            source_column = None, source_type = None,
            confidence = 0, transformation = None, status = ''unmapped''\<rparr>,
           \<lparr>target_column = ''customer_status'', target_type = ''STRING'',
            source_column = None, source_type = None,
            confidence = 0, transformation = None, status = ''unmapped''\<rparr>]
      \<and> mapping_count r = 1 \<and> unmapped_count r = 2 \<and> average_confidence r = 0.60)
   \<and> (\<exists>g. scenario_sql = Returned (Inr g)
      \<and> insert_sql g =
          ''-- Generated transformation: cust_src -> customer'' @ nl
          @ ''-- Generated at: {timestamp}'' @ nl
          @ ''-- Mapping confidence: 60%'' @ nl
          @ nl
          @ ''INSERT INTO '' @ backtick @ ''proj.commercial_lending_target.customer'' @ backtick @ nl
          @ ''SELECT'' @ nl
          @ ''  cust_id AS customer_id,'' @ nl
          @ ''  NULL AS customer_name,'' @ nl
          @ ''  NULL AS customer_status'' @ nl
          @ ''FROM '' @ backtick @ ''proj.commercial_lending_source.cust_src'' @ backtick @ '';'' @ nl)"
proof (intro conjI)
  have "scenario_result =
          Inr (suggest_result accepting_guardrails ''cust_src'' ''customer''
                 [cust_id, cust_name] [customer_id, customer_name, customer_status])"
    by code_simp
  moreover have "mappings (suggest_result accepting_guardrails ''cust_src'' ''customer''
                 [cust_id, cust_name] [customer_id, customer_name, customer_status]) =
          [\<lparr>target_column = ''customer_id'', target_type = ''INT64'',
            source_column = Some ''cust_id'', source_type = Some ''INT64'',
            confidence = 0.60, transformation = None, status = ''suggested''\<rparr>,
           \<lparr>target_column = ''customer_name'', target_type = ''STRING'',
            source_column = None, source_type = None,
            confidence = 0, transformation = None, status = ''unmapped''\<rparr>,
           \<lparr>target_column = ''customer_status'', target_type = ''STRING'',
            source_column = None, source_type = None,
            confidence = 0, transformation = None, status = ''unmapped''\<rparr>]"
    by code_simp
  moreover have "mapping_count (suggest_result accepting_guardrails ''cust_src'' ''customer''
                 [cust_id, cust_name] [customer_id, customer_name, customer_status]) = 1"
    by code_simp
  moreover have "unmapped_count (suggest_result accepting_guardrails ''cust_src'' ''customer''
                 [cust_id, cust_name] [customer_id, customer_name, customer_status]) = 2"
    by code_simp
  moreover have "average_confidence (suggest_result accepting_guardrails ''cust_src'' ''customer''
                 [cust_id, cust_name] [customer_id, customer_name, customer_status]) = 0.60"
    by code_simp
  ultimately show "\<exists>r. scenario_result = Inr r
      \<and> mappings r =
          [\<lparr>target_column = ''customer_id'', target_type = ''INT64'',
            source_column = Some ''cust_id'', source_type = Some ''INT64'',
            confidence = 0.60, transformation = None, status = ''suggested''\<rparr>,
           \<lparr>target_column = ''customer_name'', target_type = ''STRING'',
            source_column = None, source_type = None,
            confidence = 0, transformation = None, status = ''unmapped''\<rparr>,
           \<lparr>target_column = ''customer_status'', target_type = ''STRING'',
            source_column = None, source_type = None,
            confidence = 0, transformation = None, status = ''unmapped''\<rparr>]
      \<and> mapping_count r = 1 \<and> unmapped_count r = 2 \<and> average_confidence r = 0.60"
    by (intro exI conjI)
next
  have "case scenario_sql of
          Returned (Inr g) \<Rightarrow> insert_sql g =
          ''-- Generated transformation: cust_src -> customer'' @ nl
          @ ''-- Generated at: {timestamp}'' @ nl
          @ ''-- Mapping confidence: 60%'' @ nl
          @ nl
          @ ''INSERT INTO '' @ backtick @ ''proj.commercial_lending_target.customer'' @ backtick @ nl
          @ ''SELECT'' @ nl
          @ ''  cust_id AS customer_id,'' @ nl
          @ ''  NULL AS customer_name,'' @ nl
          @ ''  NULL AS customer_status'' @ nl
          @ ''FROM '' @ backtick @ ''proj.commercial_lending_source.cust_src'' @ backtick @ '';'' @ nl
        | _ \<Rightarrow> False"
    by code_simp
  then show "\<exists>g. scenario_sql = Returned (Inr g)
      \<and> insert_sql g =
          ''-- Generated transformation: cust_src -> customer'' @ nl
          @ ''-- Generated at: {timestamp}'' @ nl
          @ ''-- Mapping confidence: 60%'' @ nl
          @ nl
          @ ''INSERT INTO '' @ backtick @ ''proj.commercial_lending_target.customer'' @ backtick @ nl
          @ ''SELECT'' @ nl
          @ ''  cust_id AS customer_id,'' @ nl
          @ ''  NULL AS customer_name,'' @ nl
          @ ''  NULL AS customer_status'' @ nl
          @ ''FROM '' @ backtick @ ''proj.commercial_lending_source.cust_src'' @ backtick @ '';'' @ nl"
    by (auto split: ret.splits sum.splits)
qed

text \<open>
  C3 on \<open>acct_stg_bal\<close> and \<open>acct_bal\<close>. Neither name starts with a listed prefix and
  they share no listed suffix, so by the rule as the specification words it the names
  are compared as they are and are not similar. \<open>_similar_names\<close> removes \<open>stg_\<close> from
  the middle of the first name, finds the names equal, and the cascade gives the pair
  confidence \<open>0.60\<close>.
\<close>

theorem similar_names_removes_inner_prefix:
  "similar_names ''acct_stg_bal'' ''acct_bal''
   \<and> \<not> spec_similar_names ''acct_stg_bal'' ''acct_bal''
   \<and> remove_prefixes prefixes (''acct_stg_bal'', ''acct_bal'') = (''acct_bal'', ''acct_bal'')
   \<and> strip_prefixes prefixes (''acct_stg_bal'', ''acct_bal'') = (''acct_stg_bal'', ''acct_bal'')
   \<and> rule_confidence ''acct_stg_bal'' ''acct_bal'' = Some 0.60"
  by code_simp

text \<open>
  C4. Every source column that a rule of the cascade accepts for a target column, and
  whose declared type differs from the target's, gets the rule's confidence less exactly
  \<open>0.1\<close> and the template \<open>CAST({source} AS <target_type>)\<close>; with equal types it
  keeps the rule's confidence and has no template. An exact case-insensitive name match
  therefore scores \<open>0.95\<close> with equal types and \<open>0.85\<close> otherwise, and no candidate has
  a negative confidence. When both snapshots are loaded and both tables are found with
  columns, \<open>suggest_column_mappings\<close> returns a mapping set in which every mapping with a
  source column carries that column's rule confidence, less \<open>0.1\<close> and with the cast
  template where the declared types differ, and in which no confidence is negative.
\<close>

theorem cast_penalty:
  assumes "source_schema st = Some ss" and "target_schema st = Some ts"
    and "find_table_cols (tables ss) src = Some source_cols" and "source_cols \<noteq> []"
    and "find_table_cols (tables ts) tgt = Some target_cols" and "target_cols \<noteq> []"
  shows
    "(\<forall>s t c. rule_confidence (fst s) (fst t) = Some c \<longrightarrow>
        candidate s t =
          (if type (snd s) \<noteq> type (snd t)
           then Some (c - 0.1, Some (''CAST({source} AS '' @ type (snd t) @ '')''))
           else Some (c, None)))
     \<and> (\<forall>s t. lower (fst s) = lower (fst t) \<longrightarrow>
        candidate s t =
          (if type (snd s) = type (snd t) then Some (0.95, None)
           else Some (0.85, Some (''CAST({source} AS '' @ type (snd t) @ '')''))))
     \<and> (\<forall>s t c' tr. candidate s t = Some (c', tr) \<longrightarrow> 0 \<le> c')
     \<and> (\<exists>r. fst (suggest_column_mappings G src tgt st) = Inr r
          \<and> length (mappings r) = length target_cols
          \<and> (\<forall>n < length target_cols.
                target_column (mappings r ! n) = fst (target_cols ! n)
              \<and> target_type (mappings r ! n) = type (snd (target_cols ! n))
              \<and> 0 \<le> confidence (mappings r ! n)
              \<and> (\<forall>b. source_column (mappings r ! n) = Some b \<longrightarrow>
                    (\<exists>col c. (b, col) \<in> set source_cols
                       \<and> rule_confidence b (target_column (mappings r ! n)) = Some c
                       \<and> (type col \<noteq> target_type (mappings r ! n) \<longrightarrow>
                             confidence (mappings r ! n) = c - 0.1
                           \<and> transformation (mappings r ! n)
                               = Some (''CAST({source} AS '' @ target_type (mappings r ! n)
                                       @ '')''))
                       \<and> (type col = target_type (mappings r ! n) \<longrightarrow>
                             confidence (mappings r ! n) = c
                           \<and> transformation (mappings r ! n) = None)
                       \<and> (lower b = lower (target_column (mappings r ! n)) \<longrightarrow>
                             confidence (mappings r ! n)
                               = (if type col = target_type (mappings r ! n)
                                  then 0.95 else 0.85))))))"
proof (intro conjI)
  show "\<forall>s t c. rule_confidence (fst s) (fst t) = Some c \<longrightarrow>
        candidate s t =
          (if type (snd s) \<noteq> type (snd t)
           then Some (c - 0.1, Some (''CAST({source} AS '' @ type (snd t) @ '')''))
           else Some (c, None))"
    by (intro allI impI) (rule candidate_cases)
  show "\<forall>s t. lower (fst s) = lower (fst t) \<longrightarrow>
        candidate s t =
          (if type (snd s) = type (snd t) then Some (0.95, None)
           else Some (0.85, Some (''CAST({source} AS '' @ type (snd t) @ '')'')))"
    by (intro allI impI) (rule candidate_exact)
  show "\<forall>s t c' tr. candidate s t = Some (c', tr) \<longrightarrow> 0 \<le> c'"
  proof (intro allI impI)
    fix s t c' tr assume "candidate s t = Some (c', tr)"
    from candidate_pos[OF this] show "0 \<le> c'" by simp
  qed
  let ?r = "suggest_result G src tgt source_cols target_cols"
  have ret: "fst (suggest_column_mappings G src tgt st) = Inr ?r"
    by (rule suggest_accepts[OF assms])
  have len: "length (mappings ?r) = length target_cols" by (rule suggest_result_length)
  have each: "\<forall>n < length target_cols.
                target_column (mappings ?r ! n) = fst (target_cols ! n)
              \<and> target_type (mappings ?r ! n) = type (snd (target_cols ! n))
              \<and> 0 \<le> confidence (mappings ?r ! n)
              \<and> (\<forall>b. source_column (mappings ?r ! n) = Some b \<longrightarrow>
                    (\<exists>col c. (b, col) \<in> set source_cols
                       \<and> rule_confidence b (target_column (mappings ?r ! n)) = Some c
                       \<and> (type col \<noteq> target_type (mappings ?r ! n) \<longrightarrow>
                             confidence (mappings ?r ! n) = c - 0.1
                           \<and> transformation (mappings ?r ! n)
                               = Some (''CAST({source} AS '' @ target_type (mappings ?r ! n)
                                       @ '')''))
                       \<and> (type col = target_type (mappings ?r ! n) \<longrightarrow>
                             confidence (mappings ?r ! n) = c
                           \<and> transformation (mappings ?r ! n) = None)
                       \<and> (lower b = lower (target_column (mappings ?r ! n)) \<longrightarrow>
                             confidence (mappings ?r ! n)
                               = (if type col = target_type (mappings ?r ! n)
                                  then 0.95 else 0.85))))"
  proof (intro allI impI)
    fix n assume n: "n < length target_cols"
    have m: "mappings ?r ! n = make_mapping source_cols (target_cols ! n)"
      by (rule suggest_result_nth[OF n])
    show "target_column (mappings ?r ! n) = fst (target_cols ! n)
              \<and> target_type (mappings ?r ! n) = type (snd (target_cols ! n))
              \<and> 0 \<le> confidence (mappings ?r ! n)
              \<and> (\<forall>b. source_column (mappings ?r ! n) = Some b \<longrightarrow>
                    (\<exists>col c. (b, col) \<in> set source_cols
                       \<and> rule_confidence b (target_column (mappings ?r ! n)) = Some c
                       \<and> (type col \<noteq> target_type (mappings ?r ! n) \<longrightarrow>
                             confidence (mappings ?r ! n) = c - 0.1
                           \<and> transformation (mappings ?r ! n)
                               = Some (''CAST({source} AS '' @ target_type (mappings ?r ! n)
                                       @ '')''))
                       \<and> (type col = target_type (mappings ?r ! n) \<longrightarrow>
                             confidence (mappings ?r ! n) = c
                           \<and> transformation (mappings ?r ! n) = None)
                       \<and> (lower b = lower (target_column (mappings ?r ! n)) \<longrightarrow>
                             confidence (mappings ?r ! n)
                               = (if type col = target_type (mappings ?r ! n)
                                  then 0.95 else 0.85))))"
      unfolding m
      by (intro conjI allI impI make_mapping_target make_mapping_target_type
            make_mapping_nonneg make_mapping_penalty)
  qed
  from ret len each
  show "\<exists>r. fst (suggest_column_mappings G src tgt st) = Inr r
          \<and> length (mappings r) = length target_cols
          \<and> (\<forall>n < length target_cols.
                target_column (mappings r ! n) = fst (target_cols ! n)
              \<and> target_type (mappings r ! n) = type (snd (target_cols ! n))
              \<and> 0 \<le> confidence (mappings r ! n)
              \<and> (\<forall>b. source_column (mappings r ! n) = Some b \<longrightarrow>
                    (\<exists>col c. (b, col) \<in> set source_cols
                       \<and> rule_confidence b (target_column (mappings r ! n)) = Some c
                       \<and> (type col \<noteq> target_type (mappings r ! n) \<longrightarrow>
                             confidence (mappings r ! n) = c - 0.1
                           \<and> transformation (mappings r ! n)
                               = Some (''CAST({source} AS '' @ target_type (mappings r ! n)
                                       @ '')''))
                       \<and> (type col = target_type (mappings r ! n) \<longrightarrow>
                             confidence (mappings r ! n) = c
                           \<and> transformation (mappings r ! n) = None)
                       \<and> (lower b = lower (target_column (mappings r ! n)) \<longrightarrow>
                             confidence (mappings r ! n)
                               = (if type col = target_type (mappings r ! n)
                                  then 0.95 else 0.85)))))"
    by (intro exI[of _ ?r] conjI)
qed

theorem cast_penalty_witness:
  "candidate amount_float amount_numeric = Some (0.85, Some ''CAST({source} AS NUMERIC)'')
   \<and> candidate amount_float amount_float = Some (0.95, None)
   \<and> (\<exists>r. fst (suggest_column_mappings accepting_guardrails ''ledger_src'' ''ledger''
                  ledger_loaded) = Inr r
        \<and> length (mappings r) = 1
        \<and> target_column (mappings r ! 0) = ''amount''
        \<and> target_type (mappings r ! 0) = ''NUMERIC''
        \<and> source_column (mappings r ! 0) = Some ''amount''
        \<and> confidence (mappings r ! 0) = 0.85
        \<and> transformation (mappings r ! 0) = Some ''CAST({source} AS NUMERIC)'')"
proof -
  let ?ss = "build_schema_info scenario_env ''src'' ledger_source_rows"
  let ?ts = "build_schema_info scenario_env ''tgt'' ledger_target_rows"
  let ?sc = "[amount_float]"
  let ?tc = "[amount_numeric]"
  have h1: "source_schema ledger_loaded = Some ?ss"
    and h2: "target_schema ledger_loaded = Some ?ts"
    by (simp_all add: ledger_loaded_def get_source_schema_def get_target_schema_def Let_def)
  have h3: "find_table_cols (tables ?ss) ''ledger_src'' = Some ?sc" by code_simp
  have h4: "?sc \<noteq> []" by simp
  have h5: "find_table_cols (tables ?ts) ''ledger'' = Some ?tc" by code_simp
  have h6: "?tc \<noteq> []" by simp
  note inst = cast_penalty[OF h1 h2 h3 h4 h5 h6, where G=accepting_guardrails]
  have l: "lower (fst amount_float) = lower (fst amount_numeric)"
    "lower (fst amount_float) = lower (fst amount_float)"
    by (simp_all add: amount_float_def amount_numeric_def)
  have ty: "type (snd amount_float) \<noteq> type (snd amount_numeric)"
    "type (snd amount_numeric) = ''NUMERIC''" "type (snd amount_float) = ''FLOAT64''"
    "fst amount_numeric = ''amount''" "fst amount_float = ''amount''"
    by (simp_all add: amount_float_def amount_numeric_def)
  from inst[THEN conjunct2, THEN conjunct1, THEN spec, THEN spec,
            of amount_float amount_numeric] l(1) ty
  have 1: "candidate amount_float amount_numeric = Some (0.85, Some ''CAST({source} AS NUMERIC)'')"
    by simp
  from inst[THEN conjunct2, THEN conjunct1, THEN spec, THEN spec,
            of amount_float amount_float] l(2)
  have 2: "candidate amount_float amount_float = Some (0.95, None)" by simp
  from inst[THEN conjunct2, THEN conjunct2, THEN conjunct2]
  obtain r where r: "fst (suggest_column_mappings accepting_guardrails ''ledger_src'' ''ledger''
                            ledger_loaded) = Inr r"
    and len: "length (mappings r) = length ?tc"
    and each: "\<forall>n < length ?tc.
                target_column (mappings r ! n) = fst (?tc ! n)
              \<and> target_type (mappings r ! n) = type (snd (?tc ! n))
              \<and> 0 \<le> confidence (mappings r ! n)
              \<and> (\<forall>b. source_column (mappings r ! n) = Some b \<longrightarrow>
                    (\<exists>col c. (b, col) \<in> set ?sc
                       \<and> rule_confidence b (target_column (mappings r ! n)) = Some c
                       \<and> (type col \<noteq> target_type (mappings r ! n) \<longrightarrow>
                             confidence (mappings r ! n) = c - 0.1
                           \<and> transformation (mappings r ! n)
                               = Some (''CAST({source} AS '' @ target_type (mappings r ! n)
                                       @ '')''))
                       \<and> (type col = target_type (mappings r ! n) \<longrightarrow>
                             confidence (mappings r ! n) = c
                           \<and> transformation (mappings r ! n) = None)
                       \<and> (lower b = lower (target_column (mappings r ! n)) \<longrightarrow>
                             confidence (mappings r ! n)
                               = (if type col = target_type (mappings r ! n)
                                  then 0.95 else 0.85))))"
    by (elim exE conjE)
  have l1: "length (mappings r) = 1" using len by simp
  have lt0: "0 < length ?tc" by simp
  note at0 = each[THEN spec, THEN mp, OF lt0]
  from at0 ty have t0: "target_column (mappings r ! 0) = ''amount''"
    and tt: "target_type (mappings r ! 0) = ''NUMERIC''" by simp_all
  have sc0: "source_column (mappings r ! 0) = Some ''amount''"
  proof -
    have "source_column (mappings (suggest_result accepting_guardrails ''ledger_src'' ''ledger''
            ?sc ?tc) ! 0) = Some ''amount''" by code_simp
    moreover have "r = suggest_result accepting_guardrails ''ledger_src'' ''ledger'' ?sc ?tc"
      using r suggest_accepts[OF h1 h2 h3 h4 h5 h6, of accepting_guardrails] by simp
    ultimately show ?thesis by simp
  qed
  from at0 sc0 obtain col c where cc: "(''amount'', col) \<in> set ?sc"
    "rule_confidence ''amount'' (target_column (mappings r ! 0)) = Some c"
    "type col \<noteq> target_type (mappings r ! 0) \<longrightarrow>
                             confidence (mappings r ! 0) = c - 0.1
                           \<and> transformation (mappings r ! 0)
                               = Some (''CAST({source} AS '' @ target_type (mappings r ! 0)
                                       @ '')'')"
    "lower ''amount'' = lower (target_column (mappings r ! 0)) \<longrightarrow>
                             confidence (mappings r ! 0)
                               = (if type col = target_type (mappings r ! 0)
                                  then 0.95 else 0.85)"
    by blast
  from cc(1) have col: "type col = ''FLOAT64''" by (auto simp: amount_float_def)
  from cc(4) t0 tt col have v: "confidence (mappings r ! 0) = 0.85" by simp
  from cc(3) tt col
  have tr: "transformation (mappings r ! 0) = Some ''CAST({source} AS NUMERIC)''" by simp
  from r l1 t0 tt sc0 v tr
  have "\<exists>r. fst (suggest_column_mappings accepting_guardrails ''ledger_src'' ''ledger''
                  ledger_loaded) = Inr r
        \<and> length (mappings r) = 1
        \<and> target_column (mappings r ! 0) = ''amount''
        \<and> target_type (mappings r ! 0) = ''NUMERIC''
        \<and> source_column (mappings r ! 0) = Some ''amount''
        \<and> confidence (mappings r ! 0) = 0.85
        \<and> transformation (mappings r ! 0) = Some ''CAST({source} AS NUMERIC)''"
    by (intro exI[of _ r] conjI)
  with 1 2 show ?thesis by (intro conjI)
qed

text \<open>
  C5, as stated, fails: the average is rounded to two decimals. With three mapped
  columns of confidence \<open>0.95\<close>, \<open>0.60\<close> and \<open>0.60\<close> the sum divided by the count is
  \<open>43/60\<close>, and the result says \<open>0.72\<close>.
\<close>

theorem average_confidence_counterexample:
  "mapped_confidences (result_mappings rounding_result) = [0.95, 0.60, 0.60]
   \<and> map_option mapping_count (result_of rounding_result) = Some 3
   \<and> sum_list (mapped_confidences (result_mappings rounding_result)) / of_nat (max 3 1) = 43 / 60
   \<and> map_option average_confidence (result_of rounding_result) = Some 0.72
   \<and> (0.72 :: rat) \<noteq> 43 / 60"
  by code_simp

text \<open>
  C5, amended. For every mapping set \<open>suggest_column_mappings\<close> returns, the average
  confidence lies between \<open>0\<close> and \<open>1\<close> and is the sum of the confidences of the mapped
  candidates divided by \<open>max(mapped_count, 1)\<close>, rounded to two decimals: it is a
  hundredth, and no further than half a hundredth from that quotient. It is taken over
  the mapped columns only, and is \<open>0\<close> when no column is mapped.
\<close>

theorem average_confidence_rounded:
  assumes "fst (suggest_column_mappings G src tgt st) = Inr r"
  shows
    "0 \<le> average_confidence r \<and> average_confidence r \<le> 1
     \<and> mapping_count r = length (filter mapped (mappings r))
     \<and> (\<exists>k::int. average_confidence r = of_int k / 100)
     \<and> \<bar>average_confidence r
          - sum_list (map confidence (filter mapped (mappings r)))
            / of_nat (max (mapping_count r) 1)\<bar> \<le> 1 / 200
     \<and> (mapping_count r = 0 \<longrightarrow> average_confidence r = 0)"
proof -
  from suggest_returns_result[OF assms] obtain source_cols target_cols
    where r: "r = suggest_result G src tgt source_cols target_cols" by blast
  let ?ms = "map (make_mapping source_cols) target_cols"
  let ?q = "sum_list (map confidence (filter mapped (mappings r)))
            / of_nat (max (mapping_count r) 1)"
  have ms: "mappings r = ?ms" and n: "mapping_count r = length (filter mapped ?ms)"
    and avg: "average_confidence r = average_of (float_tie_up G) ?ms"
    by (simp_all add: r suggest_result_fields)
  have "\<forall>m \<in> set ?ms. 0 \<le> confidence m \<and> confidence m \<le> 1"
    by (simp add: make_mapping_nonneg make_mapping_le_one)
  from average_of_unit[OF this, of "float_tie_up G"]
  have unit: "0 \<le> average_confidence r" "average_confidence r \<le> 1"
    by (simp_all add: avg)
  have eq: "average_confidence r = round2_float (float_tie_up G (mapped_confidences ?ms)) ?q"
    by (simp add: avg ms n average_of_def mapped_confidences_def)
  from round2_float_near[of "float_tie_up G (mapped_confidences ?ms)" ?q]
  have near: "\<exists>k::int. average_confidence r = of_int k / 100"
    "\<bar>average_confidence r - ?q\<bar> \<le> 1 / 200"
    unfolding eq by blast+
  have zero: "mapping_count r = 0 \<longrightarrow> average_confidence r = 0"
  proof
    assume "mapping_count r = 0"
    with n have "length (filter mapped ?ms) = 0" by (simp only:)
    then have "filter mapped ?ms = []" by (simp only: length_0_conv)
    then show "average_confidence r = 0"
      by (simp add: avg average_of_def mapped_confidences_def round2_float_zero)
  qed
  from unit n ms near zero show ?thesis by (intro conjI) simp_all
qed

theorem average_confidence_rounded_witness:
  "(\<exists>r. rounding_result = Inr r \<and> 0 \<le> average_confidence r \<and> average_confidence r \<le> 1
        \<and> mapping_count r = 3 \<and> average_confidence r = 0.72)
   \<and> (\<exists>r. fst (suggest_column_mappings accepting_guardrails ''pay_src'' ''pay'' pay_loaded)
            = Inr r
        \<and> mapping_count r = 2
        \<and> (average_confidence r = 0.77 \<or> average_confidence r = 0.78))"
proof -
  let ?a = "suggest_result accepting_guardrails ''loan_src'' ''loan''
              [amount_float, cust_id, cust_key] [amount_float, customer_id, customer_key]"
  let ?b = "suggest_result accepting_guardrails ''pay_src'' ''pay''
              [amount_float, (''cust_id'', snd cust_id\<lparr>position := 2\<rparr>)]
              [amount_float, (''customer_id'', snd customer_id\<lparr>position := 2\<rparr>)]"
  have a: "fst (suggest_column_mappings accepting_guardrails ''loan_src'' ''loan'' rounding_loaded)
             = Inr ?a" by code_simp
  have b: "fst (suggest_column_mappings accepting_guardrails ''pay_src'' ''pay'' pay_loaded)
             = Inr ?b" by code_simp
  have ca: "map confidence (filter mapped (mappings ?a)) = [0.95, 0.60, 0.60]" by code_simp
  have cb: "map confidence (filter mapped (mappings ?b)) = [0.95, 0.60]" by code_simp
  have na: "length (filter mapped (mappings ?a)) = 3" by code_simp
  have nb: "length (filter mapped (mappings ?b)) = 2" by code_simp
  note ta = average_confidence_rounded[OF a]
  note tb = average_confidence_rounded[OF b]
  have qa: "sum_list [0.95, 0.60, 0.60] / of_nat (max 3 1) = (43 / 60 :: rat)" by simp
  have qb: "sum_list [0.95, 0.60] / of_nat (max 2 1) = (31 / 40 :: rat)" by simp
  from ta have "mapping_count ?a = length (filter mapped (mappings ?a))" by (elim conjE)
  with na have ma: "mapping_count ?a = 3" by (simp only:)
  from tb have "mapping_count ?b = length (filter mapped (mappings ?b))" by (elim conjE)
  with nb have mb: "mapping_count ?b = 2" by (simp only:)
  have ua: "0 \<le> average_confidence ?a" "average_confidence ?a \<le> 1"
    by (rule ta[THEN conjunct1], rule ta[THEN conjunct2, THEN conjunct1])
  from ta obtain ka :: int where ka: "average_confidence ?a = of_int ka / 100"
    by (elim conjE exE)
  from tb obtain kb :: int where kb: "average_confidence ?b = of_int kb / 100"
    by (elim conjE exE)
  from ta have "\<bar>average_confidence ?a
          - sum_list (map confidence (filter mapped (mappings ?a)))
            / of_nat (max (mapping_count ?a) 1)\<bar> \<le> 1 / 200" by (elim conjE)
  then have "\<bar>of_int ka / 100 - (43 / 60 :: rat)\<bar> \<le> 1 / 200"
    by (simp only: ca ma qa ka)
  then have "(427 :: rat) \<le> 6 * of_int ka" "6 * of_int ka \<le> (433 :: rat)"
    unfolding abs_le_iff by linarith+
  then have "(of_int 427 :: rat) \<le> of_int (6 * ka)" "(of_int (6 * ka) :: rat) \<le> of_int 433"
    by simp_all
  then have "427 \<le> 6 * ka" "6 * ka \<le> 433" unfolding of_int_le_iff .
  then have "ka = 72" by linarith
  with ka have va: "average_confidence ?a = 0.72" by simp
  from tb have "\<bar>average_confidence ?b
          - sum_list (map confidence (filter mapped (mappings ?b)))
            / of_nat (max (mapping_count ?b) 1)\<bar> \<le> 1 / 200" by (elim conjE)
  then have "\<bar>of_int kb / 100 - (31 / 40 :: rat)\<bar> \<le> 1 / 200"
    by (simp only: cb mb qb kb)
  then have "(77 :: rat) \<le> of_int kb" "of_int kb \<le> (78 :: rat)"
    unfolding abs_le_iff by linarith+
  then have "(of_int 77 :: rat) \<le> of_int kb" "(of_int kb :: rat) \<le> of_int 78"
    by simp_all
  then have "77 \<le> kb" "kb \<le> 78" unfolding of_int_le_iff .
  then have "kb = 77 \<or> kb = 78" by linarith
  with kb have vb: "average_confidence ?b = 0.77 \<or> average_confidence ?b = 0.78" by auto
  have "rounding_result = Inr ?a" using a by (simp only: rounding_result_def)
  with ua ma va have 1: "\<exists>r. rounding_result = Inr r \<and> 0 \<le> average_confidence r
        \<and> average_confidence r \<le> 1 \<and> mapping_count r = 3
        \<and> average_confidence r = 0.72" by (intro exI[of _ ?a] conjI)
  from b mb vb have 2: "\<exists>r. fst (suggest_column_mappings accepting_guardrails ''pay_src'' ''pay''
            pay_loaded) = Inr r
        \<and> mapping_count r = 2
        \<and> (average_confidence r = 0.77 \<or> average_confidence r = 0.78)"
    by (intro exI[of _ ?b] conjI)
  from 1 2 show ?thesis by (rule conjI)
qed

text \<open>
  C6 on \<open>cust_src\<close> against \<open>customer_rev(customer_status, customer_id)\<close>. The first
  target column has no source column, so the select list gives it \<open>NULL\<close>, and the first
  mapped target column is \<open>customer_id\<close>. The MERGE text takes its key from
  \<open>mappings[0]\<close>, the unmapped \<open>customer_status\<close>: its \<open>ON\<close> clause compares
  \<open>target.customer_status\<close> with a column that is \<open>NULL\<close> in every source row, while the
  \<open>UPDATE SET\<close> clause beside it lists the mapped columns only.
\<close>

theorem merge_keyed_on_unmapped_column:
  "stored_target_columns
     (approved_mappings status_first_approved (mapping_key ''cust_src'' ''customer_rev''))
     = Some [''customer_status'', ''customer_id'']
   \<and> mapped_target_columns
       (approved_mappings status_first_approved (mapping_key ''cust_src'' ''customer_rev''))
     = Some [''customer_id'']
   \<and> map_option merge_sql (sql_of status_first_sql)
     = Some
        (''-- MERGE transformation: cust_src -> customer_rev'' @ nl
         @ ''-- Use this for incremental updates'' @ nl
         @ nl
         @ ''MERGE '' @ backtick @ ''proj.commercial_lending_target.customer_rev'' @ backtick
         @ '' AS target'' @ nl
         @ ''USING ('' @ nl
         @ ''  SELECT'' @ nl
         @ ''  NULL AS customer_status,'' @ nl
         @ ''  cust_id AS customer_id'' @ nl
         @ ''  FROM '' @ backtick @ ''proj.commercial_lending_source.cust_src'' @ backtick @ nl
         @ '') AS source'' @ nl
         @ ''ON target.customer_status = source.customer_status'' @ nl
         @ ''WHEN MATCHED THEN'' @ nl
         @ ''  UPDATE SET target.customer_id = source.customer_id'' @ nl
         @ ''WHEN NOT MATCHED THEN'' @ nl
         @ ''  INSERT (customer_status, customer_id)'' @ nl
         @ ''  VALUES (source.customer_status, source.customer_id);'' @ nl)"
  by code_simp

text \<open>
  C7 on the pairs \<open>(a_to_b, c)\<close> and \<open>(a, b_to_c)\<close>. The two pairs differ and have the
  same key \<open>a_to_b_to_c\<close>. After a suggestion for the first pair the entry under its key
  is the first pair's; a suggestion for the second pair replaces it, and an approval
  asked for the first pair then approves the second pair's mapping set.
\<close>

theorem mapping_key_collision:
  "(''a_to_b'', ''c'') \<noteq> (''a'', ''b_to_c'')
   \<and> mapping_key ''a_to_b'' ''c'' = mapping_key ''a'' ''b_to_c''
   \<and> stored_source_table (suggested_mappings colliding_first (mapping_key ''a_to_b'' ''c''))
       = Some ''a_to_b''
   \<and> stored_source_table (suggested_mappings colliding_second (mapping_key ''a_to_b'' ''c''))
       = Some ''a''
   \<and> stored_target_columns (suggested_mappings colliding_second (mapping_key ''a_to_b'' ''c''))
       = Some [''y'']
   \<and> stored_source_table
        (approved_mappings
           (snd (approve_mappings scenario_env ''a_to_b'' ''c'' True colliding_second))
           (mapping_key ''a_to_b'' ''c''))
       = Some ''a''"
  by code_simp

text \<open>
  C8 on a table that is not in the snapshot. With both snapshots loaded and no source
  table \<open>orders\<close>, \<open>suggest_column_mappings\<close> returns a dictionary whose only entry is
  \<open>error\<close>: it has no \<open>source_table\<close> and no \<open>target_table\<close> entry, and the target
  table's name is nowhere in it. The same holds for a missing target table. The
  schema-not-loaded error of the same function carries both names.
\<close>

theorem table_not_found_omits_table_names:
  "fst (suggest_column_mappings accepting_guardrails ''orders'' ''customer'' scenario_loaded)
     = Inl [(''error'', PStr (''Source table '' @ quote @ ''orders'' @ quote
                              @ '' not found in schema.''))]
   \<and> fst (suggest_column_mappings accepting_guardrails ''cust_src'' ''orders'' scenario_loaded)
     = Inl [(''error'', PStr (''Target table '' @ quote @ ''orders'' @ quote
                              @ '' not found in schema.''))]
   \<and> map_of (source_not_found ''orders'') ''source_table'' = None
   \<and> map_of (source_not_found ''orders'') ''target_table'' = None
   \<and> map_of (target_not_found ''orders'') ''source_table'' = None
   \<and> map_of (target_not_found ''orders'') ''target_table'' = None
   \<and> fst (suggest_column_mappings accepting_guardrails ''orders'' ''customer'' initial_world)
     = Inl [(''error'', PStr (''Schema information not available. ''
                              @ ''Run get_source_schema and get_target_schema first.'')),
            (''source_table'', PStr ''orders''), (''target_table'', PStr ''customer'')]"
  by code_simp

text \<open>
  C9. When a suggestion is stored for a table pair, approving the pair stores that
  mapping set as the pair's approved set, and approving it again leaves the
  approved-mappings store as it was; each of the two calls adds exactly one event to
  the audit trail. A rejection leaves the approved-mappings store as it was (no entry is
  created), and adds one event as well.
\<close>

theorem approval_idempotent:
  assumes "suggested_mappings st (mapping_key src tgt) = Some ms"
  shows
    "approved_mappings (snd (approve_mappings E src tgt True st)) (mapping_key src tgt) = Some ms
     \<and> approved_mappings
           (snd (approve_mappings E' src tgt True (snd (approve_mappings E src tgt True st))))
         = approved_mappings (snd (approve_mappings E src tgt True st))
     \<and> length (audit_log (snd (approve_mappings E src tgt True st)))
         = length (audit_log st) + 1
     \<and> length (audit_log
           (snd (approve_mappings E' src tgt True (snd (approve_mappings E src tgt True st)))))
         = length (audit_log (snd (approve_mappings E src tgt True st))) + 1
     \<and> approved_mappings (snd (approve_mappings E src tgt False st)) = approved_mappings st
     \<and> length (audit_log (snd (approve_mappings E src tgt False st)))
         = length (audit_log st) + 1"
proof -
  let ?k = "mapping_key src tgt"
  let ?st1 = "snd (approve_mappings E src tgt True st)"
  have st1: "?st1 = log_audit_event ''MAPPING'' ''MAPPINGS_APPROVED''
               [(''source_table'', PStr src), (''target_table'', PStr tgt),
                (''mapping_count'', PInt (int (mapping_count ms))),
                (''avg_confidence'', PNum (average_confidence ms))]
               ''LOW''
               (st\<lparr>approved_mappings := (approved_mappings st)(?k \<mapsto> ms)\<rparr>)"
    using assms by (simp add: approve_mappings_def)
  have sug1: "suggested_mappings ?st1 ?k = Some ms"
    using assms by (simp add: st1 log_audit_event_def)
  have app1: "approved_mappings ?st1 = (approved_mappings st)(?k \<mapsto> ms)"
    by (simp add: st1 log_audit_event_def)
  have len1: "length (audit_log ?st1) = length (audit_log st) + 1"
    by (simp add: st1 log_audit_event_def)
  let ?st2 = "snd (approve_mappings E' src tgt True ?st1)"
  have st2: "?st2 = log_audit_event ''MAPPING'' ''MAPPINGS_APPROVED''
               [(''source_table'', PStr src), (''target_table'', PStr tgt),
                (''mapping_count'', PInt (int (mapping_count ms))),
                (''avg_confidence'', PNum (average_confidence ms))]
               ''LOW''
               (?st1\<lparr>approved_mappings := (approved_mappings ?st1)(?k \<mapsto> ms)\<rparr>)"
    using sug1 by (simp add: approve_mappings_def)
  have app2: "approved_mappings ?st2 = approved_mappings ?st1"
    by (simp add: st2 app1 log_audit_event_def)
  have len2: "length (audit_log ?st2) = length (audit_log ?st1) + 1"
    by (simp add: st2 log_audit_event_def)
  have rej: "snd (approve_mappings E src tgt False st)
               = log_audit_event ''MAPPING'' ''MAPPINGS_REJECTED''
                   [(''source_table'', PStr src), (''target_table'', PStr tgt)] ''LOW'' st"
    using assms by (simp add: approve_mappings_def)
  have app3: "approved_mappings (snd (approve_mappings E src tgt False st)) = approved_mappings st"
    by (simp add: rej log_audit_event_def)
  have len3: "length (audit_log (snd (approve_mappings E src tgt False st)))
         = length (audit_log st) + 1"
    by (simp add: rej log_audit_event_def)
  from app1 app2 len1 len2 app3 len3 show ?thesis by simp
qed

theorem approval_idempotent_witness:
  "stored_source_table
     (approved_mappings (snd (approve_mappings scenario_env ''cust_src'' ''customer'' True
                                scenario_suggested))
        (mapping_key ''cust_src'' ''customer''))
     = Some ''cust_src''
   \<and> approved_mappings
        (snd (approve_mappings scenario_env ''cust_src'' ''customer'' True
                (snd (approve_mappings scenario_env ''cust_src'' ''customer'' True
                        scenario_suggested))))
      = approved_mappings
          (snd (approve_mappings scenario_env ''cust_src'' ''customer'' True scenario_suggested))
   \<and> length (audit_log (snd (approve_mappings scenario_env ''cust_src'' ''customer'' True
                               scenario_suggested))) = 2
   \<and> approved_mappings
        (snd (approve_mappings scenario_env ''cust_src'' ''customer'' False scenario_suggested))
      = approved_mappings scenario_suggested"
proof -
  let ?r = "suggest_result accepting_guardrails ''cust_src'' ''customer''
              [cust_id, cust_name] [customer_id, customer_name, customer_status]"
  have s: "suggested_mappings scenario_suggested (mapping_key ''cust_src'' ''customer'')
             = Some ?r"
    by code_simp
  have r: "source_table ?r = ''cust_src''"
    by (simp add: suggest_result_def Let_def)
  have l: "length (audit_log scenario_suggested) = 1" by code_simp
  from approval_idempotent[OF s, of scenario_env scenario_env] l r
  show ?thesis by (simp add: stored_source_table_def)
qed

text \<open>
  C10. A mapping set that \<open>suggest_column_mappings\<close> returns is the one it stores under
  the pair's key; it has exactly one candidate for each key of the target table's column
  dictionary, in the dictionary's order, and the dictionary is not empty, so the list of
  mappings is not empty. A target table whose column dictionary is empty is answered with
  an error and nothing is stored. In every world a session can reach, each stored
  approved mapping set has a non-empty list of mappings, and
  \<open>generate_transformation_sql\<close> never raises \<open>IndexError\<close> (it raises nothing).
\<close>

theorem stored_mapping_sets_nonempty:
  "(\<forall>r. fst (suggest_column_mappings G src tgt st) = Inr r \<longrightarrow>
       (\<exists>ts target_cols. target_schema st = Some ts
          \<and> find_table_cols (tables ts) tgt = Some target_cols
          \<and> target_cols \<noteq> [] \<and> distinct (map fst target_cols)
          \<and> map target_column (mappings r) = map fst target_cols)
       \<and> mappings r \<noteq> []
       \<and> suggested_mappings (snd (suggest_column_mappings G src tgt st)) (mapping_key src tgt)
           = Some r)
   \<and> (\<forall>ts. target_schema st = Some ts \<and> find_table_cols (tables ts) tgt = Some [] \<longrightarrow>
         (\<exists>e. suggest_column_mappings G src tgt st = (Inl e, st)))
   \<and> (reachable G st \<longrightarrow>
         (\<forall>k ms. approved_mappings st k = Some ms \<longrightarrow> mappings ms \<noteq> [])
         \<and> (\<forall>e. fst (generate_transformation_sql G E src tgt st) \<noteq> Raised e))"
proof (intro conjI allI impI)
  fix r assume r: "fst (suggest_column_mappings G src tgt st) = Inr r"
  from suggest_cases[of G src tgt st] r
  obtain ss ts source_cols target_cols where c:
    "target_schema st = Some ts"
    "find_table_cols (tables ts) tgt = Some target_cols" "target_cols \<noteq> []"
    "suggest_column_mappings G src tgt st
           = (Inr (suggest_result G src tgt source_cols target_cols),
              (suggest_audit src tgt (suggest_result G src tgt source_cols target_cols) st)
                \<lparr>suggested_mappings :=
                   (suggested_mappings st)(mapping_key src tgt \<mapsto>
                      suggest_result G src tgt source_cols target_cols)\<rparr>)"
    by auto
  from c(4) r have req: "r = suggest_result G src tgt source_cols target_cols" by simp
  have t: "map target_column (mappings r) = map fst target_cols"
    by (simp only: req suggest_result_targets)
  from c(1,2,3) find_table_cols_distinct[OF c(2)] t
  show "\<exists>ts target_cols. target_schema st = Some ts
          \<and> find_table_cols (tables ts) tgt = Some target_cols
          \<and> target_cols \<noteq> [] \<and> distinct (map fst target_cols)
          \<and> map target_column (mappings r) = map fst target_cols" by blast
  from c(3) show "mappings r \<noteq> []" by (simp add: req suggest_result_fields)
  from c(4) show "suggested_mappings (snd (suggest_column_mappings G src tgt st))
                    (mapping_key src tgt) = Some r" by (simp add: req)
next
  fix ts assume "target_schema st = Some ts \<and> find_table_cols (tables ts) tgt = Some []"
  then show "\<exists>e. suggest_column_mappings G src tgt st = (Inl e, st)"
    by (auto simp: suggest_column_mappings_def split: option.splits)
next
  fix k ms assume "reachable G st" "approved_mappings st k = Some ms"
  with reachable_nonempty[of G st] show "mappings ms \<noteq> []" by blast
next
  fix e assume reach: "reachable G st"
  show "fst (generate_transformation_sql G E src tgt st) \<noteq> Raised e"
  proof
    assume "fst (generate_transformation_sql G E src tgt st) = Raised e"
    from generate_raises_only_on_empty[OF this] obtain md
      where "approved_mappings st (mapping_key src tgt) = Some md" "mappings md = []" by blast
    with reachable_nonempty[OF reach] show False by blast
  qed
qed

theorem stored_mapping_sets_nonempty_witness:
  "reachable accepting_guardrails scenario_approved
   \<and> fst (suggest_column_mappings accepting_guardrails ''cust_src'' ''customer'' scenario_loaded)
       = Inr scenario_set
   \<and> mappings scenario_set \<noteq> []
   \<and> suggested_mappings scenario_suggested (mapping_key ''cust_src'' ''customer'')
       = Some scenario_set
   \<and> approved_mappings scenario_approved (mapping_key ''cust_src'' ''customer'')
       = Some scenario_set
   \<and> fst (generate_transformation_sql accepting_guardrails scenario_env ''cust_src'' ''customer''
            scenario_approved) \<noteq> Raised IndexError"
proof -
  have reach: "reachable accepting_guardrails scenario_approved"
    unfolding scenario_approved_def scenario_suggested_def scenario_loaded_def
    by (intro reachable.approve reachable.suggest reachable.target reachable.source
          reachable.start)
  have s: "fst (suggest_column_mappings accepting_guardrails ''cust_src'' ''customer''
                  scenario_loaded) = Inr scenario_set" by code_simp
  have a: "approved_mappings scenario_approved (mapping_key ''cust_src'' ''customer'')
             = Some scenario_set" by code_simp
  note sug = stored_mapping_sets_nonempty[where G=accepting_guardrails and src="''cust_src''"
               and tgt="''customer''" and st=scenario_loaded,
               THEN conjunct1, THEN spec, THEN mp, OF s]
  note app = stored_mapping_sets_nonempty[where G=accepting_guardrails and src="''cust_src''"
               and tgt="''customer''" and st=scenario_approved and E=scenario_env,
               THEN conjunct2, THEN conjunct2, THEN mp, OF reach]
  from sug have ne: "mappings scenario_set \<noteq> []" by (elim conjE)
  from sug have st: "suggested_mappings scenario_suggested (mapping_key ''cust_src'' ''customer'')
       = Some scenario_set" unfolding scenario_suggested_def by (elim conjE)
  from app have "fst (generate_transformation_sql accepting_guardrails scenario_env ''cust_src''
            ''customer'' scenario_approved) \<noteq> Raised IndexError" by blast
  with reach s ne st a show ?thesis by (intro conjI)
qed

section \<open>Further properties of the tools\<close>

text \<open>
  X1. The precondition failures of the four stages. Each is answered with a dictionary that
  has an \<open>error\<close> entry, nothing is raised, and the world (the session state and the audit
  trail) is returned as it was. The errors of a missing snapshot, a missing suggestion,
  a missing approval and missing SQL carry the two table names; the error of a table
  missing from its snapshot carries its message only.
\<close>

theorem precondition_failures_are_values:
  "((source_schema st = None \<or> target_schema st = None) \<longrightarrow>
       suggest_column_mappings G src tgt st = (Inl (schema_not_loaded src tgt), st))
   \<and> (\<forall>ss ts. source_schema st = Some ss \<and> target_schema st = Some ts
         \<and> (find_table_cols (tables ss) src = None \<or> find_table_cols (tables ss) src = Some [])
       \<longrightarrow> suggest_column_mappings G src tgt st = (Inl (source_not_found src), st))
   \<and> (\<forall>ss ts c cs. source_schema st = Some ss \<and> target_schema st = Some ts
         \<and> find_table_cols (tables ss) src = Some (c # cs)
         \<and> (find_table_cols (tables ts) tgt = None \<or> find_table_cols (tables ts) tgt = Some [])
       \<longrightarrow> suggest_column_mappings G src tgt st = (Inl (target_not_found tgt), st))
   \<and> (suggested_mappings st (mapping_key src tgt) = None \<longrightarrow>
         approve_mappings E src tgt decision st = (no_suggestion src tgt, st))
   \<and> (approved_mappings st (mapping_key src tgt) = None \<longrightarrow>
         generate_transformation_sql G E src tgt st = (Returned (Inl (not_approved src tgt)), st))
   \<and> (generated_sql st (mapping_key src tgt) = None \<longrightarrow>
         execute_transformation E warehouse src tgt dry st
           = (Returned (no_sql_generated src tgt), st))
   \<and> (\<forall>d \<in> {schema_not_loaded src tgt, no_suggestion src tgt, not_approved src tgt,
               no_sql_generated src tgt}.
         map_of d ''error'' \<noteq> None \<and> map_of d ''source_table'' = Some (PStr src)
         \<and> map_of d ''target_table'' = Some (PStr tgt))
   \<and> map_of (source_not_found src) ''error'' \<noteq> None
   \<and> map_of (target_not_found tgt) ''error'' \<noteq> None"
proof (intro conjI allI impI ballI)
  assume "source_schema st = None \<or> target_schema st = None"
  then show "suggest_column_mappings G src tgt st = (Inl (schema_not_loaded src tgt), st)"
    by (auto simp: suggest_column_mappings_def split: option.splits)
next
  fix ss ts
  assume "source_schema st = Some ss \<and> target_schema st = Some ts
         \<and> (find_table_cols (tables ss) src = None \<or> find_table_cols (tables ss) src = Some [])"
  then show "suggest_column_mappings G src tgt st = (Inl (source_not_found src), st)"
    by (auto simp: suggest_column_mappings_def)
next
  fix ss ts c cs
  assume "source_schema st = Some ss \<and> target_schema st = Some ts
         \<and> find_table_cols (tables ss) src = Some (c # cs)
         \<and> (find_table_cols (tables ts) tgt = None \<or> find_table_cols (tables ts) tgt = Some [])"
  then show "suggest_column_mappings G src tgt st = (Inl (target_not_found tgt), st)"
    by (auto simp: suggest_column_mappings_def)
next
  assume "suggested_mappings st (mapping_key src tgt) = None"
  then show "approve_mappings E src tgt decision st = (no_suggestion src tgt, st)"
    by (simp add: approve_mappings_def)
next
  assume "approved_mappings st (mapping_key src tgt) = None"
  then show "generate_transformation_sql G E src tgt st
               = (Returned (Inl (not_approved src tgt)), st)"
    by (simp add: generate_transformation_sql_def)
next
  assume "generated_sql st (mapping_key src tgt) = None"
  then show "execute_transformation E warehouse src tgt dry st
           = (Returned (no_sql_generated src tgt), st)"
    by (simp add: execute_transformation_def)
next
  fix d assume d: "d \<in> {schema_not_loaded src tgt, no_suggestion src tgt, not_approved src tgt,
               no_sql_generated src tgt}"
  then show "map_of d ''error'' \<noteq> None"
    by (auto simp: schema_not_loaded_def no_suggestion_def not_approved_def no_sql_generated_def)
  from d show "map_of d ''source_table'' = Some (PStr src)"
    by (auto simp: schema_not_loaded_def no_suggestion_def not_approved_def no_sql_generated_def)
  from d show "map_of d ''target_table'' = Some (PStr tgt)"
    by (auto simp: schema_not_loaded_def no_suggestion_def not_approved_def no_sql_generated_def)
next
  show "map_of (source_not_found src) ''error'' \<noteq> None" by (simp add: source_not_found_def)
  show "map_of (target_not_found tgt) ''error'' \<noteq> None" by (simp add: target_not_found_def)
qed

theorem precondition_failures_are_values_witness:
  "suggest_column_mappings accepting_guardrails ''cust_src'' ''customer'' initial_world
     = (Inl (schema_not_loaded ''cust_src'' ''customer''), initial_world)
   \<and> suggest_column_mappings accepting_guardrails ''orders'' ''customer'' scenario_loaded
     = (Inl (source_not_found ''orders''), scenario_loaded)
   \<and> suggest_column_mappings accepting_guardrails ''cust_src'' ''orders'' scenario_loaded
     = (Inl (target_not_found ''orders''), scenario_loaded)
   \<and> approve_mappings scenario_env ''cust_src'' ''customer'' True scenario_loaded
     = (no_suggestion ''cust_src'' ''customer'', scenario_loaded)
   \<and> generate_transformation_sql accepting_guardrails scenario_env ''cust_src'' ''customer''
       scenario_suggested
     = (Returned (Inl (not_approved ''cust_src'' ''customer'')), scenario_suggested)
   \<and> execute_transformation scenario_env unreachable_warehouse ''cust_src'' ''customer'' True
       scenario_approved
     = (Returned (no_sql_generated ''cust_src'' ''customer''), scenario_approved)
   \<and> map_of (no_suggestion ''cust_src'' ''customer'') ''source_table'' = Some (PStr ''cust_src'')"
proof -
  let ?ss = "build_schema_info scenario_env ''src'' scenario_source_rows"
  let ?ts = "build_schema_info scenario_env ''tgt'' scenario_target_rows"
  have i: "source_schema initial_world = None \<or> target_schema initial_world = None"
    by (simp add: initial_world_def)
  have l: "source_schema scenario_loaded = Some ?ss" "target_schema scenario_loaded = Some ?ts"
    by (simp_all add: scenario_loaded_def get_source_schema_def get_target_schema_def Let_def)
  have f1: "find_table_cols (tables ?ss) ''orders'' = None" by code_simp
  have f2: "find_table_cols (tables ?ss) ''cust_src'' = Some (cust_id # [cust_name])" by code_simp
  have f3: "find_table_cols (tables ?ts) ''orders'' = None" by code_simp
  have s: "suggested_mappings scenario_loaded (mapping_key ''cust_src'' ''customer'') = None"
    by code_simp
  have a: "approved_mappings scenario_suggested (mapping_key ''cust_src'' ''customer'') = None"
    by code_simp
  have g: "generated_sql scenario_approved (mapping_key ''cust_src'' ''customer'') = None"
    by code_simp
  note t0 = precondition_failures_are_values[where st=initial_world and src="''cust_src''"
              and tgt="''customer''" and G=accepting_guardrails]
  note t1 = precondition_failures_are_values[where st=scenario_loaded and src="''orders''"
              and tgt="''customer''" and G=accepting_guardrails]
  note t2 = precondition_failures_are_values[where st=scenario_loaded and src="''cust_src''"
              and tgt="''orders''" and G=accepting_guardrails]
  note t3 = precondition_failures_are_values[where st=scenario_loaded and src="''cust_src''"
              and tgt="''customer''" and E=scenario_env and decision=True]
  note t4 = precondition_failures_are_values[where st=scenario_suggested and src="''cust_src''"
              and tgt="''customer''" and E=scenario_env and G=accepting_guardrails]
  note t5 = precondition_failures_are_values[where st=scenario_approved and src="''cust_src''"
              and tgt="''customer''" and E=scenario_env and warehouse=unreachable_warehouse
              and dry=True]
  have 0: "suggest_column_mappings accepting_guardrails ''cust_src'' ''customer'' initial_world
     = (Inl (schema_not_loaded ''cust_src'' ''customer''), initial_world)"
    using t0 i by blast
  have 1: "suggest_column_mappings accepting_guardrails ''orders'' ''customer'' scenario_loaded
     = (Inl (source_not_found ''orders''), scenario_loaded)"
    using t1 l f1 by blast
  have 2: "suggest_column_mappings accepting_guardrails ''cust_src'' ''orders'' scenario_loaded
     = (Inl (target_not_found ''orders''), scenario_loaded)"
    using t2 l f2 f3 by blast
  have 3: "approve_mappings scenario_env ''cust_src'' ''customer'' True scenario_loaded
     = (no_suggestion ''cust_src'' ''customer'', scenario_loaded)"
    using t3 s by blast
  have 4: "generate_transformation_sql accepting_guardrails scenario_env ''cust_src'' ''customer''
       scenario_suggested
     = (Returned (Inl (not_approved ''cust_src'' ''customer'')), scenario_suggested)"
    using t4 a by blast
  have 5: "execute_transformation scenario_env unreachable_warehouse ''cust_src'' ''customer'' True
       scenario_approved
     = (Returned (no_sql_generated ''cust_src'' ''customer''), scenario_approved)"
    using t5 g by blast
  have 6: "map_of (no_suggestion ''cust_src'' ''customer'') ''source_table''
             = Some (PStr ''cust_src'')"
    using t3 by blast
  from 0 1 2 3 4 5 6 show ?thesis by (intro conjI)
qed

text \<open>
  X2. Entries under other keys. A call for a table pair changes, in the three stores, at most
  the entry under the pair's own key \<open><source_table>_to_<target_table>\<close>; every entry
  under a different key stays as it was.
\<close>

theorem other_keys_untouched:
  assumes "k \<noteq> mapping_key src tgt"
  shows
    "suggested_mappings (snd (suggest_column_mappings G src tgt st)) k = suggested_mappings st k
     \<and> approved_mappings (snd (approve_mappings E src tgt decision st)) k = approved_mappings st k
     \<and> generated_sql (snd (generate_transformation_sql G E src tgt st)) k = generated_sql st k"
proof (intro conjI)
  show "suggested_mappings (snd (suggest_column_mappings G src tgt st)) k
          = suggested_mappings st k"
    using suggest_cases[of G src tgt st] assms by (auto simp: suggest_audit_frame)
  show "approved_mappings (snd (approve_mappings E src tgt decision st)) k
          = approved_mappings st k"
    using assms by (simp add: approve_mappings_def log_audit_event_def split: option.splits)
  show "generated_sql (snd (generate_transformation_sql G E src tgt st)) k = generated_sql st k"
    using assms
    by (simp add: generate_transformation_sql_def Let_def log_audit_event_def
          split: option.splits ret.splits prod.splits)
qed

theorem other_keys_untouched_witness:
  "suggested_mappings
     (snd (suggest_column_mappings accepting_guardrails ''loan_src'' ''loan'' scenario_suggested))
     (mapping_key ''cust_src'' ''customer'')
   = suggested_mappings scenario_suggested (mapping_key ''cust_src'' ''customer'')
   \<and> approved_mappings
       (snd (approve_mappings scenario_env ''loan_src'' ''loan'' True scenario_approved))
       (mapping_key ''cust_src'' ''customer'')
     = Some scenario_set"
proof -
  have k: "mapping_key ''cust_src'' ''customer'' \<noteq> mapping_key ''loan_src'' ''loan''"
    by code_simp
  have a: "approved_mappings scenario_approved (mapping_key ''cust_src'' ''customer'')
             = Some scenario_set" by code_simp
  note inst1 = other_keys_untouched[OF k, where G=accepting_guardrails and st=scenario_suggested]
  note inst2 = other_keys_untouched[OF k, where E=scenario_env and decision=True
                 and st=scenario_approved]
  have 1: "suggested_mappings
     (snd (suggest_column_mappings accepting_guardrails ''loan_src'' ''loan'' scenario_suggested))
     (mapping_key ''cust_src'' ''customer'')
   = suggested_mappings scenario_suggested (mapping_key ''cust_src'' ''customer'')"
    by (rule inst1[THEN conjunct1])
  have "approved_mappings
       (snd (approve_mappings scenario_env ''loan_src'' ''loan'' True scenario_approved))
       (mapping_key ''cust_src'' ''customer'')
     = approved_mappings scenario_approved (mapping_key ''cust_src'' ''customer'')"
    by (rule inst2[THEN conjunct2, THEN conjunct1])
  with a have 2: "approved_mappings
       (snd (approve_mappings scenario_env ''loan_src'' ''loan'' True scenario_approved))
       (mapping_key ''cust_src'' ''customer'')
     = Some scenario_set" by (simp only:)
  from 1 2 show ?thesis by (rule conjI)
qed

text \<open>
  X3. For an approved, non-empty mapping set whose INSERT text passes the SQL check,
  \<open>generate_transformation_sql\<close> returns both statements. Their select list is, in the
  order of the mapping set, \<open><transformation with {source} replaced by the source
  column, or the bare source column> AS <target_column>\<close> for a mapped column and
  \<open>NULL AS <target_column>\<close> for an unmapped one, the entries joined by a comma and a
  line break; the \<open>ON\<close> clause of the MERGE names the target column of the first
  mapping.
\<close>

theorem generated_sql_text:
  assumes "approved_mappings st (mapping_key src tgt) = Some md"
    and "mappings md \<noteq> []"
    and "sel = join ('','' @ nl) (map select_column (mappings md))"
    and "fst (validate_sql_query G (insert_sql_text E src tgt (average_confidence md) sel))"
  shows
    "(\<forall>m. select_column m =
         (if mapped m
          then ''  ''
               @ (if truthy (transformation m)
                  then str_replace ''{source}'' (the (source_column m)) (the (transformation m))
                  else the (source_column m))
               @ '' AS '' @ target_column m
          else ''  NULL AS '' @ target_column m))
     \<and> (\<exists>g. fst (generate_transformation_sql G E src tgt st) = Returned (Inr g)
          \<and> insert_sql g =
              ''-- Generated transformation: '' @ src @ '' -> '' @ tgt @ nl
              @ ''-- Generated at: {timestamp}'' @ nl
              @ ''-- Mapping confidence: '' @ fmt_0f (average_confidence md * 100) @ ''%'' @ nl
              @ nl
              @ ''INSERT INTO '' @ table_ref (env_project_id E) (env_target_dataset E) tgt @ nl
              @ ''SELECT'' @ nl
              @ sel @ nl
              @ ''FROM '' @ table_ref (env_project_id E) (env_source_dataset E) src @ '';'' @ nl
          \<and> merge_sql g =
              ''-- MERGE transformation: '' @ src @ '' -> '' @ tgt @ nl
              @ ''-- Use this for incremental updates'' @ nl
              @ nl
              @ ''MERGE '' @ table_ref (env_project_id E) (env_target_dataset E) tgt
              @ '' AS target'' @ nl
              @ ''USING ('' @ nl
              @ ''  SELECT'' @ nl
              @ sel @ nl
              @ ''  FROM '' @ table_ref (env_project_id E) (env_source_dataset E) src @ nl
              @ '') AS source'' @ nl
              @ ''ON target.'' @ target_column (hd (mappings md))
              @ '' = source.'' @ target_column (hd (mappings md)) @ nl
              @ ''WHEN MATCHED THEN'' @ nl
              @ ''  UPDATE SET ''
              @ join '', ''
                  (map (\<lambda>m. ''target.'' @ target_column m @ '' = source.'' @ target_column m)
                     (filter mapped (mappings md))) @ nl
              @ ''WHEN NOT MATCHED THEN'' @ nl
              @ ''  INSERT ('' @ join '', '' (map target_column (mappings md)) @ '')'' @ nl
              @ ''  VALUES ('' @ join '', '' (map (\<lambda>m. ''source.'' @ target_column m) (mappings md))
              @ '');'' @ nl)"
proof (intro conjI allI)
  fix m show "select_column m =
         (if mapped m
          then ''  ''
               @ (if truthy (transformation m)
                  then str_replace ''{source}'' (the (source_column m)) (the (transformation m))
                  else the (source_column m))
               @ '' AS '' @ target_column m
          else ''  NULL AS '' @ target_column m)"
    by (rule select_column_cases)
next
  obtain m0 rest where ms: "mappings md = m0 # rest"
    using assms(2) by (cases "mappings md") auto
  have sel: "join ('','' @ nl) (select_loop (mappings md) []) = sel"
    by (simp add: select_loop_eq assms(3))
  obtain w where v: "validate_sql_query G (insert_sql_text E src tgt (average_confidence md) sel)
                      = (True, w)"
    using assms(4)
    by (cases "validate_sql_query G (insert_sql_text E src tgt (average_confidence md) sel)") auto
  obtain e ws where w: "w = (e, ws)" by (cases w)
  let ?mtext = "''-- MERGE transformation: '' @ src @ '' -> '' @ tgt @ nl
              @ ''-- Use this for incremental updates'' @ nl
              @ nl
              @ ''MERGE '' @ table_ref (env_project_id E) (env_target_dataset E) tgt
              @ '' AS target'' @ nl
              @ ''USING ('' @ nl
              @ ''  SELECT'' @ nl
              @ sel @ nl
              @ ''  FROM '' @ table_ref (env_project_id E) (env_source_dataset E) src @ nl
              @ '') AS source'' @ nl
              @ ''ON target.'' @ target_column (hd (mappings md))
              @ '' = source.'' @ target_column (hd (mappings md)) @ nl
              @ ''WHEN MATCHED THEN'' @ nl
              @ ''  UPDATE SET ''
              @ join '', ''
                  (map (\<lambda>m. ''target.'' @ target_column m @ '' = source.'' @ target_column m)
                     (filter mapped (mappings md))) @ nl
              @ ''WHEN NOT MATCHED THEN'' @ nl
              @ ''  INSERT ('' @ join '', '' (map target_column (mappings md)) @ '')'' @ nl
              @ ''  VALUES ('' @ join '', '' (map (\<lambda>m. ''source.'' @ target_column m) (mappings md))
              @ '');'' @ nl"
  have mg: "merge_sql_text E src tgt (mappings md) sel = Returned ?mtext"
    by (simp add: merge_sql_text_def ms)
  let ?g = "\<lparr>gs_source_table = src,
             gs_target_table = tgt,
             insert_sql = insert_sql_text E src tgt (average_confidence md) sel,
             merge_sql = ?mtext,
             column_count = length (mappings md),
             mapped_count = mapping_count md,
             sql_validation_status = ''passed'',
             sql_validation_warnings = ws,
             gs_risk_assessment =
               generate_risk_assessment G ''SQL_EXECUTE''
                 [(''source_table'', PStr src), (''target_table'', PStr tgt)],
             generated_at = utcnow E\<rparr>"
  have "fst (generate_transformation_sql G E src tgt st) = Returned (Inr ?g)"
    unfolding generate_transformation_sql_def assms(1) option.case Let_def sel mg ret.case v w
    by simp
  moreover have "insert_sql ?g =
              ''-- Generated transformation: '' @ src @ '' -> '' @ tgt @ nl
              @ ''-- Generated at: {timestamp}'' @ nl
              @ ''-- Mapping confidence: '' @ fmt_0f (average_confidence md * 100) @ ''%'' @ nl
              @ nl
              @ ''INSERT INTO '' @ table_ref (env_project_id E) (env_target_dataset E) tgt @ nl
              @ ''SELECT'' @ nl
              @ sel @ nl
              @ ''FROM '' @ table_ref (env_project_id E) (env_source_dataset E) src @ '';'' @ nl"
    by (simp add: insert_sql_text_def)
  moreover have "merge_sql ?g = ?mtext" by simp
  ultimately show "\<exists>g. fst (generate_transformation_sql G E src tgt st) = Returned (Inr g)
          \<and> insert_sql g =
              ''-- Generated transformation: '' @ src @ '' -> '' @ tgt @ nl
              @ ''-- Generated at: {timestamp}'' @ nl
              @ ''-- Mapping confidence: '' @ fmt_0f (average_confidence md * 100) @ ''%'' @ nl
              @ nl
              @ ''INSERT INTO '' @ table_ref (env_project_id E) (env_target_dataset E) tgt @ nl
              @ ''SELECT'' @ nl
              @ sel @ nl
              @ ''FROM '' @ table_ref (env_project_id E) (env_source_dataset E) src @ '';'' @ nl
          \<and> merge_sql g =
              ''-- MERGE transformation: '' @ src @ '' -> '' @ tgt @ nl
              @ ''-- Use this for incremental updates'' @ nl
              @ nl
              @ ''MERGE '' @ table_ref (env_project_id E) (env_target_dataset E) tgt
              @ '' AS target'' @ nl
              @ ''USING ('' @ nl
              @ ''  SELECT'' @ nl
              @ sel @ nl
              @ ''  FROM '' @ table_ref (env_project_id E) (env_source_dataset E) src @ nl
              @ '') AS source'' @ nl
              @ ''ON target.'' @ target_column (hd (mappings md))
              @ '' = source.'' @ target_column (hd (mappings md)) @ nl
              @ ''WHEN MATCHED THEN'' @ nl
              @ ''  UPDATE SET ''
              @ join '', ''
                  (map (\<lambda>m. ''target.'' @ target_column m @ '' = source.'' @ target_column m)
                     (filter mapped (mappings md))) @ nl
              @ ''WHEN NOT MATCHED THEN'' @ nl
              @ ''  INSERT ('' @ join '', '' (map target_column (mappings md)) @ '')'' @ nl
              @ ''  VALUES ('' @ join '', '' (map (\<lambda>m. ''source.'' @ target_column m) (mappings md))
              @ '');'' @ nl"
    by (intro exI[of _ ?g] conjI)
qed

theorem generated_sql_text_witness:
  "approved_mappings scenario_approved (mapping_key ''cust_src'' ''customer'') = Some scenario_set
   \<and> mappings scenario_set \<noteq> []
   \<and> scenario_select
       = ''  cust_id AS customer_id,'' @ nl @ ''  NULL AS customer_name,'' @ nl
         @ ''  NULL AS customer_status''
   \<and> select_column (hd (mappings scenario_set)) = ''  cust_id AS customer_id''
   \<and> (\<exists>g. fst (generate_transformation_sql accepting_guardrails scenario_env ''cust_src'' ''customer'' scenario_approved) = Returned (Inr g)
          \<and> insert_sql g =
              ''-- Generated transformation: '' @ ''cust_src'' @ '' -> '' @ ''customer'' @ nl
              @ ''-- Generated at: {timestamp}'' @ nl
              @ ''-- Mapping confidence: '' @ fmt_0f (average_confidence scenario_set * 100) @ ''%'' @ nl
              @ nl
              @ ''INSERT INTO '' @ table_ref (env_project_id scenario_env) (env_target_dataset scenario_env) ''customer'' @ nl
              @ ''SELECT'' @ nl
              @ scenario_select @ nl
              @ ''FROM '' @ table_ref (env_project_id scenario_env) (env_source_dataset scenario_env) ''cust_src'' @ '';'' @ nl
          \<and> merge_sql g =
              ''-- MERGE transformation: '' @ ''cust_src'' @ '' -> '' @ ''customer'' @ nl
              @ ''-- Use this for incremental updates'' @ nl
              @ nl
              @ ''MERGE '' @ table_ref (env_project_id scenario_env) (env_target_dataset scenario_env) ''customer''
              @ '' AS target'' @ nl
              @ ''USING ('' @ nl
              @ ''  SELECT'' @ nl
              @ scenario_select @ nl
              @ ''  FROM '' @ table_ref (env_project_id scenario_env) (env_source_dataset scenario_env) ''cust_src'' @ nl
              @ '') AS source'' @ nl
              @ ''ON target.'' @ target_column (hd (mappings scenario_set))
              @ '' = source.'' @ target_column (hd (mappings scenario_set)) @ nl
              @ ''WHEN MATCHED THEN'' @ nl
              @ ''  UPDATE SET ''
              @ join '', ''
                  (map (\<lambda>m. ''target.'' @ target_column m @ '' = source.'' @ target_column m)
                     (filter mapped (mappings scenario_set))) @ nl
              @ ''WHEN NOT MATCHED THEN'' @ nl
              @ ''  INSERT ('' @ join '', '' (map target_column (mappings scenario_set)) @ '')'' @ nl
              @ ''  VALUES ('' @ join '', '' (map (\<lambda>m. ''source.'' @ target_column m) (mappings scenario_set))
              @ '');'' @ nl)"
proof -
  have h1: "approved_mappings scenario_approved (mapping_key ''cust_src'' ''customer'')
              = Some scenario_set" by code_simp
  have h2: "mappings scenario_set \<noteq> []" by code_simp
  have h3: "scenario_select = join ('','' @ nl) (map select_column (mappings scenario_set))"
    by (simp only: scenario_select_def)
  have h4: "fst (validate_sql_query accepting_guardrails
              (insert_sql_text scenario_env ''cust_src'' ''customer''
                 (average_confidence scenario_set) scenario_select))"
    by (simp add: accepting_guardrails_def)
  have lit: "scenario_select
       = ''  cust_id AS customer_id,'' @ nl @ ''  NULL AS customer_name,'' @ nl
         @ ''  NULL AS customer_status''" by code_simp
  have m0: "mapped (hd (mappings scenario_set))" "\<not> truthy (transformation (hd (mappings scenario_set)))"
    "the (source_column (hd (mappings scenario_set))) = ''cust_id''"
    "target_column (hd (mappings scenario_set)) = ''customer_id''" by code_simp+
  note inst = generated_sql_text[OF h1 h2 h3 h4]
  from inst[THEN conjunct1] m0
  have first: "select_column (hd (mappings scenario_set)) = ''  cust_id AS customer_id''"
    by simp
  from h1 h2 lit first inst[THEN conjunct2] show ?thesis by (intro conjI)
qed

end
